theory Spec2Isabelle
  imports Complex_Main "HOL-Library.AList"
begin

section \<open>Numbers\<close>

text \<open>
  The program computes with JavaScript numbers. The inputs are finite numbers; a finite
  number is modelled by a real and arithmetic on finite numbers is exact, so the rounding and
  the overflow of the floating-point operations are outside the model. The two non-finite
  values that the code can produce from finite inputs are kept:
  \<^item> \<open>Math.sqrt\<close> of a negative number is \<open>NaN\<close>; every arithmetic operation with a
    \<open>NaN\<close> operand gives \<open>NaN\<close>, every comparison with \<open>NaN\<close> is false, and
    \<open>NaN || 0\<close> is \<open>0\<close>. Values that may be \<open>NaN\<close> have type \<open>number\<close>.
  \<^item> the literal \<open>Infinity\<close> appears only as a Sharpe ratio, which has type \<open>ratio\<close>.
\<close>

datatype number = Num real | NaN

datatype ratio = Finite real | PosInfinity | NegInfinity

fun lift2 :: "(real \<Rightarrow> real \<Rightarrow> real) \<Rightarrow> number \<Rightarrow> number \<Rightarrow> number" where
  "lift2 f (Num a) (Num b) = Num (f a b)"
| "lift2 f _ _ = NaN"

definition nplus :: "number \<Rightarrow> number \<Rightarrow> number" where
  "nplus = lift2 (\<lambda>a b. a + b)"

definition nminus :: "number \<Rightarrow> number \<Rightarrow> number" where
  "nminus = lift2 (\<lambda>a b. a - b)"

definition ntimes :: "number \<Rightarrow> number \<Rightarrow> number" where
  "ntimes = lift2 (\<lambda>a b. a * b)"

text \<open>\<open>Math.sqrt\<close>.\<close>

definition Math_sqrt :: "real \<Rightarrow> number" where
  "Math_sqrt x = (if x < 0 then NaN else Num (sqrt x))"

text \<open>\<open>Math.max(0, x)\<close>.\<close>

fun Math_max0 :: "number \<Rightarrow> number" where
  "Math_max0 (Num x) = Num (max 0 x)"
| "Math_max0 NaN = NaN"

text \<open>\<open>x > 0\<close> and \<open>x < 0\<close> on a value that may be \<open>NaN\<close>.\<close>

fun isPositive :: "number \<Rightarrow> bool" where
  "isPositive (Num x) = (x > 0)"
| "isPositive NaN = False"

fun isNegative :: "number \<Rightarrow> bool" where
  "isNegative (Num x) = (x < 0)"
| "isNegative NaN = False"

text \<open>
  \<open>parseFloat(x.toFixed(2))\<close>. \<open>toFixed(2)\<close> picks the integer \<open>n\<close> with \<open>n / 100\<close>
  closest to \<open>|x|\<close>, the larger one on a tie, and keeps the sign; from \<open>10^21\<close> on it prints
  the number itself, and \<open>NaN\<close> is printed and parsed as \<open>NaN\<close>.
\<close>

definition toFixed2 :: "real \<Rightarrow> real" where
  "toFixed2 x = (if \<bar>x\<bar> \<ge> 10 ^ 21 then x
                 else sgn x * real_of_int \<lfloor>\<bar>x\<bar> * 100 + 1 / 2\<rfloor> / 100)"

fun parseFloat_toFixed2 :: "number \<Rightarrow> number" where
  "parseFloat_toFixed2 (Num x) = Num (toFixed2 x)"
| "parseFloat_toFixed2 NaN = NaN"

section \<open>Data model\<close>

datatype ScenarioType = BEST | AVERAGE | WORST

record Stock =
  name :: string
  geometricMean :: real
  volatility :: real

record BankAccount =
  bankName :: string
  interestRate :: real

record StockAllocationResult =
  sa_name :: string
  sa_amount :: number
  sa_weightInBasket :: real
  sa_weightInTotal :: number

record BankAllocation =
  ba_name :: string
  ba_amount :: number
  ba_weightInTotal :: number

record BasketMetrics =
  bm_expectedReturn :: real
  bm_volatility :: number
  bm_sharpeRatio :: ratio

record PortfolioAllocationResult =
  res_stocks :: "StockAllocationResult list"
  res_bankAllocation :: BankAllocation
  res_basketMetrics :: BasketMetrics
  res_targetPortfolioVolatility :: real
  res_totalInvestment :: real

text \<open>
  The code throws \<open>Error\<close> objects that differ in their message only. There is one
  constructor for each \<open>throw\<close> statement; \<open>conditionOf\<close> gives the class of the failure.
  \<open>InfiniteSharpeRatio\<close> is not thrown by the code: it marks the one place where an infinite
  Sharpe ratio would enter the arithmetic, and \<open>calculateAllocation\<close> never returns it.
\<close>

datatype error =
    NegativeTotalAmount
  | NonPositiveVolatility string
  | InvalidStockData string
  | InterestRateOutOfRange real
  | NegativeTargetVolatility
  | CorrelationOutOfRange real
  | NoStocksForTargetVolatility real
  | ZeroVolatilityBasket real
  | SumPositiveSharpeZero
  | InfiniteSharpeRatio
  | NegativeInitialInvestment
  | NegativeMonthlyDeposit
  | InvalidDuration
  | NoStocksForNonZeroTarget

datatype condition = InvalidInput | UnachievableVolatility | DegenerateSharpeWeights | OutsideModel

fun conditionOf :: "error \<Rightarrow> condition" where
  "conditionOf (NoStocksForTargetVolatility _) = UnachievableVolatility"
| "conditionOf (ZeroVolatilityBasket _) = UnachievableVolatility"
| "conditionOf NoStocksForNonZeroTarget = UnachievableVolatility"
| "conditionOf SumPositiveSharpeZero = DegenerateSharpeWeights"
| "conditionOf InfiniteSharpeRatio = OutsideModel"
| "conditionOf _ = InvalidInput"

section \<open>PortfolioCalculator\<close>

definition MIN_INTEREST_RATE :: real where
  "MIN_INTEREST_RATE = 0.01"

definition MAX_INTEREST_RATE :: real where
  "MAX_INTEREST_RATE = 0.076"

definition DEFAULT_CORRELATION :: real where
  "DEFAULT_CORRELATION = 0.6"

text \<open>
  \<open>validateInputs\<close>. The \<open>typeof\<close> tests hold for every value of the model's types, so of
  the second test on a stock only \<open>!stock.name\<close> is left: the name is the empty string.
\<close>

fun validateStocks :: "Stock list \<Rightarrow> error + unit" where
  "validateStocks [] = Inr ()"
| "validateStocks (stock # rest) =
     (if volatility stock \<le> 0 then Inl (NonPositiveVolatility (name stock))
      else if name stock = [] then Inl (InvalidStockData (name stock))
      else validateStocks rest)"

definition validateInputs ::
  "real \<Rightarrow> Stock list \<Rightarrow> BankAccount \<Rightarrow> real \<Rightarrow> real \<Rightarrow> error + unit" where
  "validateInputs totalAmount stocks bankAccount targetPortfolioVolatility correlation =
     (if totalAmount < 0 then Inl NegativeTotalAmount
      else case validateStocks stocks of
        Inl e \<Rightarrow> Inl e
      | Inr _ \<Rightarrow>
          if interestRate bankAccount < MIN_INTEREST_RATE
             \<or> interestRate bankAccount > MAX_INTEREST_RATE
          then Inl (InterestRateOutOfRange (interestRate bankAccount))
          else if targetPortfolioVolatility < 0 then Inl NegativeTargetVolatility
          else if correlation < - 1 \<or> correlation > 1 then Inl (CorrelationOutOfRange correlation)
          else Inr ())"

definition stockSharpeRatio :: "real \<Rightarrow> Stock \<Rightarrow> ratio" where
  "stockSharpeRatio riskFreeRate stock =
     (if volatility stock = 0 then
        (if geometricMean stock - riskFreeRate > 0 then PosInfinity
         else if geometricMean stock - riskFreeRate < 0 then NegInfinity
         else Finite 0)
      else Finite ((geometricMean stock - riskFreeRate) / volatility stock))"

definition calculateStockSharpeRatios :: "Stock list \<Rightarrow> real \<Rightarrow> ratio list" where
  "calculateStockSharpeRatios stocks riskFreeRate = map (stockSharpeRatio riskFreeRate) stocks"

text \<open>The finite Sharpe ratios as reals; \<open>None\<close> when one of them is infinite.\<close>

fun finiteRatios :: "ratio list \<Rightarrow> real list option" where
  "finiteRatios [] = Some []"
| "finiteRatios (Finite r # rest) = map_option (\<lambda>rs. r # rs) (finiteRatios rest)"
| "finiteRatios (_ # rest) = None"

definition calculateBasketWeights :: "real list \<Rightarrow> string list \<Rightarrow> error + real list" where
  "calculateBasketWeights stockSharpeRatios stockNames =
     (let positiveSharpeRatios = filter (\<lambda>r. r > 0) stockSharpeRatios;
          sumPositiveSharpe = foldl (\<lambda>sum ratio. sum + ratio) 0 positiveSharpeRatios
      in if sumPositiveSharpe = 0 then
           (if list_all (\<lambda>ratio. ratio \<le> 0) stockSharpeRatios then
              Inr (if length stockSharpeRatios > 0
                   then map (\<lambda>_. 1 / real (length stockSharpeRatios)) stockSharpeRatios
                   else [])
            else Inl SumPositiveSharpeZero)
         else Inr (map (\<lambda>ratio. if ratio > 0 then ratio / sumPositiveSharpe else 0)
                     stockSharpeRatios))"

text \<open>
  \<open>calculateBasketMetrics\<close>. The weights are read by index; the list of weights has the
  length of the list of stocks wherever the function is called, so no read is out of range.
  The test \<open>basketVolatility > 0\<close> is false for \<open>NaN\<close>, which then takes the branches
  written for a basket without volatility.
\<close>

definition basketExpectedReturn :: "Stock list \<Rightarrow> real list \<Rightarrow> real" where
  "basketExpectedReturn stocks basketWeights =
     foldl (\<lambda>sum index. sum + basketWeights ! index * geometricMean (stocks ! index))
       0 [0..<length stocks]"

definition basketVariance :: "Stock list \<Rightarrow> real list \<Rightarrow> real \<Rightarrow> real" where
  "basketVariance stocks basketWeights correlation =
     foldl (\<lambda>var i.
         foldl (\<lambda>var j. var + 2 * basketWeights ! i * basketWeights ! j
                             * volatility (stocks ! i) * volatility (stocks ! j) * correlation)
           (var + (basketWeights ! i) ^ 2 * (volatility (stocks ! i)) ^ 2)
           [i + 1..<length stocks])
       0 [0..<length stocks]"

definition calculateBasketMetrics ::
  "Stock list \<Rightarrow> real list \<Rightarrow> real \<Rightarrow> real \<Rightarrow> BasketMetrics" where
  "calculateBasketMetrics stocks basketWeights riskFreeRate correlation =
     (let expectedReturn = basketExpectedReturn stocks basketWeights;
          basketVolatility = Math_sqrt (basketVariance stocks basketWeights correlation);
          withoutVolatility =
            (if expectedReturn - riskFreeRate = 0 then Finite 0
             else if expectedReturn > riskFreeRate then PosInfinity else NegInfinity);
          basketSharpeRatio =
            (case basketVolatility of
               Num v \<Rightarrow>
                 if v > 0 then Finite ((expectedReturn - riskFreeRate) / v)
                 else withoutVolatility
             | NaN \<Rightarrow> withoutVolatility)
      in \<lparr> bm_expectedReturn = expectedReturn, bm_volatility = basketVolatility,
           bm_sharpeRatio = basketSharpeRatio \<rparr>)"

text \<open>
  The weight of the basket in the portfolio, the local \<open>basketWeightInPortfolio\<close> of
  \<open>calculateAllocation\<close>. A \<open>NaN\<close> volatility is not \<open>=== 0\<close>, so the division branch is
  taken and the weight is \<open>NaN\<close>.
\<close>

definition basketWeightInPortfolio :: "BasketMetrics \<Rightarrow> real \<Rightarrow> real \<Rightarrow> error + number" where
  "basketWeightInPortfolio basketMetrics riskFreeRate targetPortfolioVolatility =
     (case bm_volatility basketMetrics of
        NaN \<Rightarrow> Inr NaN
      | Num v \<Rightarrow>
          if v = 0 then
            (if targetPortfolioVolatility = 0
             then Inr (Num (if bm_expectedReturn basketMetrics > riskFreeRate then 1 else 0))
             else Inl (ZeroVolatilityBasket targetPortfolioVolatility))
          else Inr (Num (targetPortfolioVolatility / v)))"

definition stockAllocationResults ::
  "Stock list \<Rightarrow> real list \<Rightarrow> number \<Rightarrow> number \<Rightarrow> StockAllocationResult list" where
  "stockAllocationResults stocks basketWeights totalAllocatedToBasket weightInPortfolio =
     map (\<lambda>index.
         \<lparr> sa_name = name (stocks ! index),
           sa_amount = ntimes totalAllocatedToBasket (Num (basketWeights ! index)),
           sa_weightInBasket = basketWeights ! index * 100,
           sa_weightInTotal =
             ntimes (ntimes (Num (basketWeights ! index)) weightInPortfolio) (Num 100) \<rparr>)
       [0..<length stocks]"

definition calculateAllocation ::
  "real \<Rightarrow> Stock list \<Rightarrow> BankAccount \<Rightarrow> real \<Rightarrow> real \<Rightarrow> error + PortfolioAllocationResult" where
  "calculateAllocation totalAmount stocks bankAccount targetPortfolioVolatility correlation =
     (case validateInputs totalAmount stocks bankAccount targetPortfolioVolatility correlation of
        Inl e \<Rightarrow> Inl e
      | Inr _ \<Rightarrow>
          if length stocks = 0 then
            (if targetPortfolioVolatility = 0 then
               Inr \<lparr> res_stocks = [],
                     res_bankAllocation =
                       \<lparr> ba_name = bankName bankAccount, ba_amount = Num totalAmount,
                         ba_weightInTotal = Num (if totalAmount > 0 then 100 else 0) \<rparr>,
                     res_basketMetrics =
                       \<lparr> bm_expectedReturn = 0, bm_volatility = Num 0,
                         bm_sharpeRatio = Finite 0 \<rparr>,
                     res_targetPortfolioVolatility = 0,
                     res_totalInvestment = totalAmount \<rparr>
             else Inl (NoStocksForTargetVolatility targetPortfolioVolatility))
          else
            (let riskFreeRate = interestRate bankAccount in
             case finiteRatios (calculateStockSharpeRatios stocks riskFreeRate) of
               None \<Rightarrow> Inl InfiniteSharpeRatio
             | Some stockSharpeRatios \<Rightarrow>
                 (case calculateBasketWeights stockSharpeRatios (map name stocks) of
                    Inl e \<Rightarrow> Inl e
                  | Inr basketWeights \<Rightarrow>
                      (let basketMetrics =
                             calculateBasketMetrics stocks basketWeights riskFreeRate correlation
                       in case basketWeightInPortfolio basketMetrics riskFreeRate
                                 targetPortfolioVolatility of
                            Inl e \<Rightarrow> Inl e
                          | Inr weightInPortfolio \<Rightarrow>
                              (let bankWeightInPortfolio = nminus (Num 1) weightInPortfolio;
                                   totalAllocatedToBasket =
                                     ntimes (Num totalAmount) weightInPortfolio;
                                   totalAllocatedToBank =
                                     ntimes (Num totalAmount) bankWeightInPortfolio
                               in Inr \<lparr> res_stocks =
                                          stockAllocationResults stocks basketWeights
                                            totalAllocatedToBasket weightInPortfolio,
                                        res_bankAllocation =
                                          \<lparr> ba_name = bankName bankAccount,
                                            ba_amount = totalAllocatedToBank,
                                            ba_weightInTotal =
                                              ntimes bankWeightInPortfolio (Num 100) \<rparr>,
                                        res_basketMetrics =
                                          \<lparr> bm_expectedReturn =
                                              bm_expectedReturn basketMetrics * 100,
                                            bm_volatility =
                                              ntimes (bm_volatility basketMetrics) (Num 100),
                                            bm_sharpeRatio = bm_sharpeRatio basketMetrics \<rparr>,
                                        res_targetPortfolioVolatility =
                                          targetPortfolioVolatility * 100,
                                        res_totalInvestment = totalAmount \<rparr>)))))"

section \<open>AdvancedPortfolioSimulator\<close>

text \<open>
  The holdings object \<open>{ [name: string]: number }\<close> is an association list in insertion
  order; \<open>AList.update\<close> overwrites the value of a key that is present and appends a new key.
  Each key occurs once, as in the object. The order of the keys matters to no result: it is the
  order in which the values are added up, and the sums are exact.
\<close>

type_synonym holdings = "(string \<times> number) list"

record MonthlySimulatedPortfolioState =
  month :: nat
  stockValues :: holdings
  bankValue :: number
  totalPortfolioValue :: number
  totalCapitalInvested :: real

definition BEST_CASE_RETURN_MULTIPLIER :: real where
  "BEST_CASE_RETURN_MULTIPLIER = 1.5"

definition BEST_CASE_VOL_MULTIPLIER :: real where
  "BEST_CASE_VOL_MULTIPLIER = 0.6"

definition WORST_CASE_RETURN_MULTIPLIER :: real where
  "WORST_CASE_RETURN_MULTIPLIER = 0.3"

definition WORST_CASE_ADDITIONAL_NEGATIVE_BIAS :: real where
  "WORST_CASE_ADDITIONAL_NEGATIVE_BIAS = - 0.0075"

definition WORST_CASE_VOL_MULTIPLIER :: real where
  "WORST_CASE_VOL_MULTIPLIER = 1.25"

text \<open>
  \<open>Math.random()\<close> is a tape: the list of the values it returns, each in \<open>[0, 1)\<close>, in the
  order of the calls. \<open>firstNonZero\<close> is the loop \<open>while (u === 0) u = Math.random()\<close>; it
  gives the draw and the rest of the tape, and \<open>None\<close> when the tape ends before a draw
  other than zero. For a draw \<open>u\<close> in \<open>(0, 1)\<close> the argument \<open>-2 ln u\<close> of the square root in
  \<open>generateStandardNormalRandom\<close> is positive.
\<close>

fun firstNonZero :: "real list \<Rightarrow> (real \<times> real list) option" where
  "firstNonZero [] = None"
| "firstNonZero (x # tape) = (if x = 0 then firstNonZero tape else Some (x, tape))"

definition generateStandardNormalRandom :: "real list \<Rightarrow> (real \<times> real list) option" where
  "generateStandardNormalRandom tape =
     (case firstNonZero tape of
        None \<Rightarrow> None
      | Some (u, tape1) \<Rightarrow>
          (case firstNonZero tape1 of
             None \<Rightarrow> None
           | Some (v, tape2) \<Rightarrow>
               (let num = sqrt (- 2.0 * ln u) * cos (2.0 * pi * v)
                in Some (max (- 3.5) (min 3.5 num), tape2))))"

text \<open>The return of one stock in one month, from the body of the loop over the stocks.\<close>

definition actualMonthlyReturn :: "ScenarioType \<Rightarrow> Stock \<Rightarrow> real \<Rightarrow> real" where
  "actualMonthlyReturn scenario stock randomFactor =
     (let monthlyExpectedReturn = geometricMean stock / 12;
          monthlyVolatility = volatility stock / sqrt 12
      in max (- 1)
           (case scenario of
              BEST \<Rightarrow>
                (let bestMean = monthlyExpectedReturn * BEST_CASE_RETURN_MULTIPLIER;
                     bestVol = monthlyVolatility * BEST_CASE_VOL_MULTIPLIER
                 in bestMean + \<bar>randomFactor\<bar> * bestVol)
            | WORST \<Rightarrow>
                (let worstMean = monthlyExpectedReturn * WORST_CASE_RETURN_MULTIPLIER
                                   + WORST_CASE_ADDITIONAL_NEGATIVE_BIAS;
                     worstVol = monthlyVolatility * WORST_CASE_VOL_MULTIPLIER
                 in worstMean + randomFactor * worstVol)
            | AVERAGE \<Rightarrow> monthlyExpectedReturn + randomFactor * monthlyVolatility))"

text \<open>\<open>currentStockHoldings[stock.name] || 0\<close>: a missing key, \<open>NaN\<close> and \<open>0\<close> give \<open>0\<close>.\<close>

fun orZero :: "number option \<Rightarrow> number" where
  "orZero (Some (Num x)) = Num x"
| "orZero _ = Num 0"

text \<open>
  The loop \<open>for (const stock of stocks)\<close> of the growth step: it fills
  \<open>grownStockHoldings\<close> and takes one normal sample from the tape for each stock.
\<close>

fun growStocks ::
  "ScenarioType \<Rightarrow> Stock list \<Rightarrow> holdings \<Rightarrow> holdings \<Rightarrow> real list
     \<Rightarrow> (holdings \<times> real list) option" where
  "growStocks scenario [] currentStockHoldings grownStockHoldings tape =
     Some (grownStockHoldings, tape)"
| "growStocks scenario (stock # rest) currentStockHoldings grownStockHoldings tape =
     (case generateStandardNormalRandom tape of
        None \<Rightarrow> None
      | Some (randomFactor, tape') \<Rightarrow>
          growStocks scenario rest currentStockHoldings
            (AList.update (name stock)
               (ntimes (orZero (map_of currentStockHoldings (name stock)))
                  (Num (1 + actualMonthlyReturn scenario stock randomFactor)))
               grownStockHoldings)
            tape')"

text \<open>\<open>Object.values(h).reduce((a, b) => a + b, 0)\<close>.\<close>

definition sumValues :: "holdings \<Rightarrow> number" where
  "sumValues h = foldl nplus (Num 0) (map snd h)"

text \<open>\<open>stocks.forEach(s => h[s.name] = 0)\<close>.\<close>

definition zeroStocks :: "Stock list \<Rightarrow> holdings \<Rightarrow> holdings" where
  "zeroStocks stocks h = fold (\<lambda>s. AList.update (name s) (Num 0)) stocks h"

text \<open>\<open>alloc.stocks.forEach(sAlloc => h[sAlloc.name] = sAlloc.amount)\<close>.\<close>

definition applyAllocation :: "StockAllocationResult list \<Rightarrow> holdings \<Rightarrow> holdings" where
  "applyAllocation allocs h = fold (\<lambda>sAlloc. AList.update (sa_name sAlloc) (sa_amount sAlloc)) allocs h"

text \<open>\<open>Object.keys(h).forEach(key => h[key] = Math.max(0, h[key]))\<close>.\<close>

definition clampHoldings :: "holdings \<Rightarrow> holdings" where
  "clampHoldings h = map (\<lambda>(key, v). (key, Math_max0 v)) h"

record SimState =
  currentStockHoldings :: holdings
  currentBankHolding :: number
  cumulativeCapitalInvested :: real

text \<open>
  Step 4 of the loop body: the new holdings and bank holding from the capital of the month.
  The test \<open>totalCapitalForReallocation > 0\<close> is false for \<open>NaN\<close>.
\<close>

definition rebalance ::
  "Stock list \<Rightarrow> BankAccount \<Rightarrow> real \<Rightarrow> real \<Rightarrow> holdings \<Rightarrow> holdings \<Rightarrow> number
     \<Rightarrow> holdings \<times> number" where
  "rebalance stocks bankAccount targetOverallVolatility correlation currentHoldings
       grownStockHoldings totalCapitalForReallocation =
     (case totalCapitalForReallocation of
        NaN \<Rightarrow> (zeroStocks stocks currentHoldings, totalCapitalForReallocation)
      | Num totalCapital \<Rightarrow>
          if totalCapital > 0 then
            (case calculateAllocation totalCapital stocks bankAccount targetOverallVolatility
                    correlation of
               Inr newAlloc \<Rightarrow>
                 (applyAllocation (res_stocks newAlloc) currentHoldings,
                  ba_amount (res_bankAllocation newAlloc))
             | Inl e \<Rightarrow>
                 (grownStockHoldings,
                  nminus totalCapitalForReallocation (sumValues grownStockHoldings)))
          else (zeroStocks stocks currentHoldings, totalCapitalForReallocation))"

text \<open>
  One month of the loop. Besides the recorded state, the trace of the month keeps the
  locals \<open>grownStockHoldings\<close> and \<open>totalCapitalForReallocation\<close> of the loop body and the
  state with which the next month starts.
\<close>

record MonthTrace =
  tr_grownStockHoldings :: holdings
  tr_totalCapitalForReallocation :: number
  tr_state :: SimState
  tr_recorded :: MonthlySimulatedPortfolioState

definition simulateMonth ::
  "real \<Rightarrow> Stock list \<Rightarrow> BankAccount \<Rightarrow> real \<Rightarrow> ScenarioType \<Rightarrow> real \<Rightarrow> nat \<Rightarrow> SimState
     \<Rightarrow> real list \<Rightarrow> (MonthTrace \<times> real list) option" where
  "simulateMonth monthlyDeposit stocks bankAccount targetOverallVolatility scenario correlation
       m s tape =
     (case growStocks scenario stocks (currentStockHoldings s) [] tape of
        None \<Rightarrow> None
      | Some (grownStockHoldings, tape') \<Rightarrow>
          (let monthlyBankRate = interestRate bankAccount / 12;
               grownBankHolding = ntimes (currentBankHolding s) (Num (1 + monthlyBankRate));
               valueAfterGrowth = nplus (sumValues grownStockHoldings) grownBankHolding;
               cumulative = cumulativeCapitalInvested s + monthlyDeposit;
               totalCapitalForReallocation = nplus valueAfterGrowth (Num monthlyDeposit);
               (newHoldings, newBankHolding) =
                 rebalance stocks bankAccount targetOverallVolatility correlation
                   (currentStockHoldings s) grownStockHoldings totalCapitalForReallocation;
               clamped = clampHoldings newHoldings;
               currentTotalValue = nplus (sumValues clamped) newBankHolding
           in Some (\<lparr> tr_grownStockHoldings = grownStockHoldings,
                      tr_totalCapitalForReallocation = totalCapitalForReallocation,
                      tr_state = \<lparr> currentStockHoldings = clamped,
                                   currentBankHolding = newBankHolding,
                                   cumulativeCapitalInvested = cumulative \<rparr>,
                      tr_recorded = \<lparr> month = m, stockValues = clamped,
                                      bankValue = parseFloat_toFixed2 newBankHolding,
                                      totalPortfolioValue = parseFloat_toFixed2 currentTotalValue,
                                      totalCapitalInvested = toFixed2 cumulative \<rparr> \<rparr>,
                    tape')))"

text \<open>The loop \<open>for (let m = 1; m <= durationInMonths; m++)\<close>, with \<open>n\<close> months still to run.\<close>

fun simulateMonths ::
  "real \<Rightarrow> Stock list \<Rightarrow> BankAccount \<Rightarrow> real \<Rightarrow> ScenarioType \<Rightarrow> real \<Rightarrow> nat \<Rightarrow> nat \<Rightarrow> SimState
     \<Rightarrow> real list \<Rightarrow> MonthTrace list option" where
  "simulateMonths monthlyDeposit stocks bankAccount targetOverallVolatility scenario correlation
       0 m s tape = Some []"
| "simulateMonths monthlyDeposit stocks bankAccount targetOverallVolatility scenario correlation
       (Suc n) m s tape =
     (case simulateMonth monthlyDeposit stocks bankAccount targetOverallVolatility scenario
             correlation m s tape of
        None \<Rightarrow> None
      | Some (tr, tape') \<Rightarrow>
          map_option (\<lambda>trs. tr # trs)
            (simulateMonths monthlyDeposit stocks bankAccount targetOverallVolatility scenario
               correlation n (Suc m) (tr_state tr) tape'))"

text \<open>Month 0: the state before the loop.\<close>

definition initialState ::
  "real \<Rightarrow> Stock list \<Rightarrow> BankAccount \<Rightarrow> real \<Rightarrow> real \<Rightarrow> SimState" where
  "initialState initialInvestment stocks bankAccount targetOverallVolatility correlation =
     (let holdings0 = zeroStocks stocks [] in
      if initialInvestment > 0 then
        (case calculateAllocation initialInvestment stocks bankAccount targetOverallVolatility
                correlation of
           Inr initialAlloc \<Rightarrow>
             \<lparr> currentStockHoldings = applyAllocation (res_stocks initialAlloc) holdings0,
               currentBankHolding = ba_amount (res_bankAllocation initialAlloc),
               cumulativeCapitalInvested = initialInvestment \<rparr>
         | Inl e \<Rightarrow>
             \<lparr> currentStockHoldings = zeroStocks stocks holdings0,
               currentBankHolding = Num initialInvestment,
               cumulativeCapitalInvested = initialInvestment \<rparr>)
      else \<lparr> currentStockHoldings = holdings0, currentBankHolding = Num 0,
             cumulativeCapitalInvested = 0 \<rparr>)"

definition recordMonth0 :: "SimState \<Rightarrow> MonthlySimulatedPortfolioState" where
  "recordMonth0 s =
     \<lparr> month = 0, stockValues = currentStockHoldings s, bankValue = currentBankHolding s,
       totalPortfolioValue = nplus (sumValues (currentStockHoldings s)) (currentBankHolding s),
       totalCapitalInvested = cumulativeCapitalInvested s \<rparr>"

text \<open>
  The run with its trace: the state recorded for month 0 and the trace of each later month.
  The result is \<open>None\<close> when the tape of random draws ends before the run does.
\<close>

definition simulateTrace ::
  "real \<Rightarrow> real \<Rightarrow> Stock list \<Rightarrow> BankAccount \<Rightarrow> real \<Rightarrow> real \<Rightarrow> ScenarioType \<Rightarrow> real
     \<Rightarrow> real list \<Rightarrow> (error + MonthlySimulatedPortfolioState \<times> MonthTrace list) option" where
  "simulateTrace initialInvestment monthlyDeposit stocks bankAccount targetOverallVolatility
       durationInMonths scenario correlation tape =
     (if initialInvestment < 0 then Some (Inl NegativeInitialInvestment)
      else if monthlyDeposit < 0 then Some (Inl NegativeMonthlyDeposit)
      else if durationInMonths < 0 \<or> real_of_int \<lfloor>durationInMonths\<rfloor> \<noteq> durationInMonths
        then Some (Inl InvalidDuration)
      else if length stocks = 0 \<and> targetOverallVolatility > 0
        then Some (Inl NoStocksForNonZeroTarget)
      else
        (let s0 = initialState initialInvestment stocks bankAccount targetOverallVolatility
                    correlation
         in map_option (\<lambda>trs. Inr (recordMonth0 s0, trs))
              (simulateMonths monthlyDeposit stocks bankAccount targetOverallVolatility scenario
                 correlation (nat \<lfloor>durationInMonths\<rfloor>) 1 s0 tape)))"

text \<open>\<open>simulateInvestmentStrategy\<close> returns the recorded states, month 0 first.\<close>

definition simulateInvestmentStrategy ::
  "real \<Rightarrow> real \<Rightarrow> Stock list \<Rightarrow> BankAccount \<Rightarrow> real \<Rightarrow> real \<Rightarrow> ScenarioType \<Rightarrow> real
     \<Rightarrow> real list \<Rightarrow> (error + MonthlySimulatedPortfolioState list) option" where
  "simulateInvestmentStrategy initialInvestment monthlyDeposit stocks bankAccount
       targetOverallVolatility durationInMonths scenario correlation tape =
     map_option (map_sum id (\<lambda>(state0, trs). state0 # map tr_recorded trs))
       (simulateTrace initialInvestment monthlyDeposit stocks bankAccount
          targetOverallVolatility durationInMonths scenario correlation tape)"

section \<open>The specification's formulas\<close>

text \<open>
  The Sharpe ratio of an asset and the basket weights as the specification words them: the
  ratios are normalized over the sum of the positive ratios, an asset with a non-positive
  ratio gets weight zero, and when every ratio is at most zero all assets get the same weight.
\<close>

definition spec_sharpeRatio :: "real \<Rightarrow> Stock \<Rightarrow> real" where
  "spec_sharpeRatio riskFreeRate stock = (geometricMean stock - riskFreeRate) / volatility stock"

definition spec_basketWeights :: "real list \<Rightarrow> real list" where
  "spec_basketWeights ratios =
     (if \<forall>r\<in>set ratios. r \<le> 0 then map (\<lambda>_. 1 / real (length ratios)) ratios
      else map (\<lambda>r. if r > 0 then r / sum_list (filter (\<lambda>r. r > 0) ratios) else 0) ratios)"




section \<open>Notions used in the statements\<close>

text \<open>
  The basket metrics that \<open>calculateAllocation\<close> computes for a list of stocks: those of
  \<open>calculateBasketMetrics\<close> at the weights of the Sharpe ratios of the stocks.
\<close>

definition basketMetricsOf :: "Stock list \<Rightarrow> real \<Rightarrow> real \<Rightarrow> BasketMetrics" where
  "basketMetricsOf stocks riskFreeRate correlation =
     calculateBasketMetrics stocks
       (spec_basketWeights (map (spec_sharpeRatio riskFreeRate) stocks)) riskFreeRate correlation"

text \<open>
  A result allocates with basket weight \<open>b\<close>: the basket gets the share \<open>b\<close> of the amount,
  split by the basket weights, and the bank account gets the share \<open>1 - b\<close>.
\<close>

definition hasBasketWeight ::
  "PortfolioAllocationResult \<Rightarrow> real list \<Rightarrow> real \<Rightarrow> real \<Rightarrow> bool" where
  "hasBasketWeight res basketWeights totalAmount b \<longleftrightarrow>
     map sa_weightInTotal (res_stocks res) = map (\<lambda>w. Num (w * b * 100)) basketWeights
     \<and> map sa_amount (res_stocks res) = map (\<lambda>w. Num (totalAmount * b * w)) basketWeights
     \<and> ba_weightInTotal (res_bankAllocation res) = Num ((1 - b) * 100)
     \<and> ba_amount (res_bankAllocation res) = Num (totalAmount * (1 - b))"

text \<open>
  The allocation is leveraged: the target volatility is above the (positive) volatility of
  the basket, so the basket weight in the portfolio is above 1.
\<close>

definition leveraged :: "Stock list \<Rightarrow> BankAccount \<Rightarrow> real \<Rightarrow> real \<Rightarrow> bool" where
  "leveraged stocks bankAccount targetVolatility correlation =
     (case bm_volatility (basketMetricsOf stocks (interestRate bankAccount) correlation) of
        Num v \<Rightarrow> 0 < v \<and> v < targetVolatility
      | NaN \<Rightarrow> False)"

text \<open>
  The allocation call of the simulation fails. Whether \<open>calculateAllocation\<close> fails does not
  depend on the amount, as long as the amount is not negative; the amount here is 1.
\<close>

definition allocationFails :: "Stock list \<Rightarrow> BankAccount \<Rightarrow> real \<Rightarrow> real \<Rightarrow> bool" where
  "allocationFails stocks bankAccount targetVolatility correlation =
     (case calculateAllocation 1 stocks bankAccount targetVolatility correlation of
        Inl e \<Rightarrow> True | Inr res \<Rightarrow> False)"

text \<open>The value that the growth loop stores for a stock, given the normal sample.\<close>

definition grownValue :: "ScenarioType \<Rightarrow> holdings \<Rightarrow> Stock \<Rightarrow> real \<Rightarrow> number" where
  "grownValue scenario currentHoldings stock randomFactor =
     ntimes (orZero (map_of currentHoldings (name stock)))
       (Num (1 + actualMonthlyReturn scenario stock randomFactor))"

text \<open>The number of draws other than zero on a tape; a normal sample uses two of them.\<close>

definition nonZeroDraws :: "real list \<Rightarrow> nat" where
  "nonZeroDraws tape = length (filter (\<lambda>x. x \<noteq> 0) tape)"

text \<open>\<open>v >= 0\<close> on a value that may be \<open>NaN\<close>.\<close>

definition nonNegative :: "number \<Rightarrow> bool" where
  "nonNegative v = (case v of Num x \<Rightarrow> 0 \<le> x | NaN \<Rightarrow> False)"

text \<open>A number with at most two decimal places: a whole number of hundredths.\<close>

definition isHundredths :: "real \<Rightarrow> bool" where
  "isHundredths x \<longleftrightarrow> real_of_int \<lfloor>x * 100\<rfloor> = x * 100"

section \<open>Example inputs\<close>

definition stockA :: Stock where
  "stockA = \<lparr> name = ''A'', geometricMean = 1/10, volatility = 1/5 \<rparr>"

definition stockB :: Stock where
  "stockB = \<lparr> name = ''B'', geometricMean = 1/10, volatility = 1/5 \<rparr>"

definition stockC :: Stock where
  "stockC = \<lparr> name = ''C'', geometricMean = 1/10, volatility = 1/5 \<rparr>"

definition stockD :: Stock where
  "stockD = \<lparr> name = ''D'', geometricMean = 1/100, volatility = 1/5 \<rparr>"

definition bank3 :: BankAccount where
  "bank3 = \<lparr> bankName = ''Savings'', interestRate = 3/100 \<rparr>"

text \<open>An account whose interest rate is below \<open>MIN_INTEREST_RATE\<close>.\<close>

definition bankZero :: BankAccount where
  "bankZero = \<lparr> bankName = ''Cash'', interestRate = 0 \<rparr>"

section \<open>Properties of the allocation engine\<close>

lemma foldl_plus_sum_list: "foldl (\<lambda>s r. s + r) a xs = (a::real) + sum_list xs"
  by (induction xs arbitrary: a) simp_all

lemma sum_positive_nonneg: "0 \<le> sum_list (filter (\<lambda>r. r > 0) (xs::real list))"
  by (induction xs) simp_all

lemma sum_positive_zero_iff:
  "sum_list (filter (\<lambda>r. r > 0) (xs::real list)) = 0 \<longleftrightarrow> (\<forall>r\<in>set xs. r \<le> 0)"
proof (induction xs)
  case Nil
  then show ?case by simp
next
  case (Cons x xs)
  have "0 \<le> sum_list (filter (\<lambda>r. r > 0) xs)" by (rule sum_positive_nonneg)
  with Cons show ?case by (auto simp: not_less)
qed

lemma calculateBasketWeights_positive:
  assumes "\<exists>r\<in>set rs. 0 < r"
  shows "calculateBasketWeights rs names =
           Inr (map (\<lambda>r. if 0 < r then r / sum_list (filter (\<lambda>r. 0 < r) rs) else 0) rs)"
proof -
  from assms have "sum_list (filter (\<lambda>r. 0 < r) rs) \<noteq> 0"
    by (auto simp: sum_positive_zero_iff not_le)
  then show ?thesis
    by (simp add: calculateBasketWeights_def foldl_plus_sum_list Let_def)
qed

lemma calculateBasketWeights_nonpositive:
  assumes "\<forall>r\<in>set rs. r \<le> 0"
  shows "calculateBasketWeights rs names = Inr (map (\<lambda>_. 1 / real (length rs)) rs)"
proof -
  from assms have "sum_list (filter (\<lambda>r. 0 < r) rs) = 0"
    by (simp add: sum_positive_zero_iff)
  with assms show ?thesis
    by (simp add: calculateBasketWeights_def foldl_plus_sum_list Let_def list_all_iff)
qed

lemma calculateBasketWeights_cases:
  "calculateBasketWeights rs names =
     Inr (if \<exists>r\<in>set rs. 0 < r
          then map (\<lambda>r. if 0 < r then r / sum_list (filter (\<lambda>r. 0 < r) rs) else 0) rs
          else map (\<lambda>_. 1 / real (length rs)) rs)"
  using calculateBasketWeights_positive[of rs names] calculateBasketWeights_nonpositive[of rs names]
  by (auto simp: not_less)

lemma sum_normalized_positive:
  "sum_list (map (\<lambda>r. if 0 < r then r / c else 0) (rs::real list)) = sum_list (filter (\<lambda>r. 0 < r) rs) / c"
  by (induction rs) (simp_all add: add_divide_distrib)

lemma basketWeights_length:
  "calculateBasketWeights rs names = Inr ws \<Longrightarrow> length ws = length rs"
  by (auto simp: calculateBasketWeights_cases split: if_splits)

lemma basketWeights_nonneg:
  assumes "calculateBasketWeights rs names = Inr ws" "w \<in> set ws"
  shows "0 \<le> w"
proof (cases "\<exists>r\<in>set rs. 0 < r")
  case True
  then have "0 < sum_list (filter (\<lambda>r. 0 < r) rs)"
    using sum_positive_nonneg[of rs] sum_positive_zero_iff[of rs] by (auto simp: not_le less_le)
  with assms True show ?thesis
    by (auto simp: calculateBasketWeights_cases split: if_splits)
next
  case False
  with assms show ?thesis by (auto simp: calculateBasketWeights_cases)
qed

lemma basketWeights_sum:
  assumes "calculateBasketWeights rs names = Inr ws" "rs \<noteq> []"
  shows "sum_list ws = 1"
proof (cases "\<exists>r\<in>set rs. 0 < r")
  case True
  then have "sum_list (filter (\<lambda>r. 0 < r) rs) \<noteq> 0"
    by (auto simp: sum_positive_zero_iff not_le)
  with assms True show ?thesis
    by (auto simp add: calculateBasketWeights_cases sum_normalized_positive)
next
  case False
  with assms show ?thesis
    by (auto simp add: calculateBasketWeights_cases sum_list_triv)
qed

lemma validateStocks_ok:
  "validateStocks stocks = Inr () \<longleftrightarrow> (\<forall>s\<in>set stocks. 0 < volatility s \<and> name s \<noteq> [])"
  by (induction stocks) auto

lemma validateStocks_error:
  "validateStocks stocks = Inl e \<Longrightarrow> e \<noteq> InfiniteSharpeRatio"
  by (induction stocks) (auto split: if_splits)

lemma validateInputs_ok:
  "validateInputs totalAmount stocks bankAccount target correlation = Inr () \<longleftrightarrow>
     0 \<le> totalAmount \<and> (\<forall>s\<in>set stocks. 0 < volatility s \<and> name s \<noteq> [])
     \<and> MIN_INTEREST_RATE \<le> interestRate bankAccount \<and> interestRate bankAccount \<le> MAX_INTEREST_RATE
     \<and> 0 \<le> target \<and> - 1 \<le> correlation \<and> correlation \<le> 1"
  by (auto simp: validateInputs_def validateStocks_ok[symmetric] split: sum.splits)

lemma finiteRatios_validated:
  assumes "\<forall>s\<in>set stocks. volatility s \<noteq> 0"
  shows "finiteRatios (calculateStockSharpeRatios stocks riskFreeRate) =
           Some (map (\<lambda>s. (geometricMean s - riskFreeRate) / volatility s) stocks)"
  using assms by (induction stocks) (simp_all add: calculateStockSharpeRatios_def stockSharpeRatio_def)

lemma foldl_nplus_Num:
  "foldl nplus (Num a) (map Num xs) = Num (a + sum_list xs)"
  by (induction xs arbitrary: a) (simp_all add: nplus_def add.assoc)

lemma foldl_nplus_NaN: "foldl nplus NaN xs = NaN"
  by (induction xs) (simp_all add: nplus_def)

lemma map_index_nth: "length ws = n \<Longrightarrow> map (\<lambda>i. f (ws ! i)) [0..<n] = map f ws"
  by (auto simp: list_eq_iff_nth_eq)

lemma amounts_Num:
  assumes "length ws = length stocks"
  shows "map sa_amount (stockAllocationResults stocks ws (Num t) bw) = map (\<lambda>w. Num (t * w)) ws"
proof -
  have "map sa_amount (stockAllocationResults stocks ws (Num t) bw)
          = map (\<lambda>i. (\<lambda>w. Num (t * w)) (ws ! i)) [0..<length stocks]"
    by (simp add: stockAllocationResults_def ntimes_def comp_def)
  also have "\<dots> = map (\<lambda>w. Num (t * w)) ws"
    using assms by (rule map_index_nth)
  finally show ?thesis .
qed

lemma amounts_NaN:
  "map sa_amount (stockAllocationResults stocks ws NaN bw) = map (\<lambda>_. NaN) [0..<length stocks]"
  by (simp add: stockAllocationResults_def ntimes_def comp_def)

lemma names_results:
  "map sa_name (stockAllocationResults stocks ws T bw) = map name stocks"
proof -
  have "map sa_name (stockAllocationResults stocks ws T bw) = map (\<lambda>i. name (stocks ! i)) [0..<length stocks]"
    by (simp add: stockAllocationResults_def comp_def)
  also have "\<dots> = map name stocks" by (rule map_index_nth) simp
  finally show ?thesis .
qed

lemma calculateBasketWeights_spec:
  "calculateBasketWeights rs names = Inr (spec_basketWeights rs)"
  by (auto simp: calculateBasketWeights_cases spec_basketWeights_def not_le)

lemma finiteRatios_spec:
  assumes "validateInputs totalAmount stocks bankAccount target correlation = Inr ()"
  shows "finiteRatios (calculateStockSharpeRatios stocks r) = Some (map (spec_sharpeRatio r) stocks)"
proof -
  from assms have "\<forall>s\<in>set stocks. volatility s \<noteq> 0"
    by (auto simp: validateInputs_ok)
  then show ?thesis
    by (simp add: finiteRatios_validated spec_sharpeRatio_def[abs_def])
qed

lemma calculateAllocation_stocks:
  assumes "validateInputs totalAmount stocks bankAccount target correlation = Inr ()"
    and "stocks \<noteq> []"
  shows "calculateAllocation totalAmount stocks bankAccount target correlation =
     (case basketWeightInPortfolio (basketMetricsOf stocks (interestRate bankAccount) correlation)
             (interestRate bankAccount) target of
        Inl e \<Rightarrow> Inl e
      | Inr bw \<Rightarrow>
          Inr \<lparr> res_stocks =
                  stockAllocationResults stocks
                    (spec_basketWeights (map (spec_sharpeRatio (interestRate bankAccount)) stocks))
                    (ntimes (Num totalAmount) bw) bw,
                res_bankAllocation =
                  \<lparr> ba_name = bankName bankAccount,
                    ba_amount = ntimes (Num totalAmount) (nminus (Num 1) bw),
                    ba_weightInTotal = ntimes (nminus (Num 1) bw) (Num 100) \<rparr>,
                res_basketMetrics =
                  \<lparr> bm_expectedReturn =
                      bm_expectedReturn (basketMetricsOf stocks (interestRate bankAccount) correlation) * 100,
                    bm_volatility =
                      ntimes (bm_volatility (basketMetricsOf stocks (interestRate bankAccount) correlation)) (Num 100),
                    bm_sharpeRatio =
                      bm_sharpeRatio (basketMetricsOf stocks (interestRate bankAccount) correlation) \<rparr>,
                res_targetPortfolioVolatility = target * 100,
                res_totalInvestment = totalAmount \<rparr>)"
  using assms unfolding basketMetricsOf_def calculateAllocation_def Let_def
  by (simp add: finiteRatios_spec[OF assms(1)] calculateBasketWeights_spec)

lemma calculateAllocation_no_stocks:
  assumes "validateInputs totalAmount [] bankAccount target correlation = Inr ()"
  shows "calculateAllocation totalAmount [] bankAccount target correlation =
     (if target = 0 then
        Inr \<lparr> res_stocks = [],
              res_bankAllocation =
                \<lparr> ba_name = bankName bankAccount, ba_amount = Num totalAmount,
                  ba_weightInTotal = Num (if totalAmount > 0 then 100 else 0) \<rparr>,
              res_basketMetrics =
                \<lparr> bm_expectedReturn = 0, bm_volatility = Num 0, bm_sharpeRatio = Finite 0 \<rparr>,
              res_targetPortfolioVolatility = 0,
              res_totalInvestment = totalAmount \<rparr>
      else Inl (NoStocksForTargetVolatility target))"
  using assms by (simp add: calculateAllocation_def)

lemma calculateAllocation_invalid:
  assumes "validateInputs totalAmount stocks bankAccount target correlation = Inl e"
  shows "calculateAllocation totalAmount stocks bankAccount target correlation = Inl e"
  using assms by (simp add: calculateAllocation_def)

lemma valid1: "validateInputs 1000 [stockA] bank3 (1/10) (1/2) = Inr ()"
  by (simp add: validateInputs_def stockA_def bank3_def MIN_INTEREST_RATE_def MAX_INTEREST_RATE_def)

lemma weights1: "spec_basketWeights (map (spec_sharpeRatio (interestRate bank3)) [stockA]) = [1]"
  by (simp add: spec_basketWeights_def spec_sharpeRatio_def stockA_def bank3_def)

lemma metrics1: "basketMetricsOf [stockA] (interestRate bank3) (1/2)
   = \<lparr> bm_expectedReturn = 1/10, bm_volatility = Num (1/5), bm_sharpeRatio = Finite (7/20) \<rparr>"
  unfolding basketMetricsOf_def weights1
  by (simp add: calculateBasketMetrics_def basketExpectedReturn_def basketVariance_def Math_sqrt_def
       stockA_def bank3_def Let_def power2_eq_square real_sqrt_divide)

lemma valid3: "validateInputs 1000 [stockA, stockB, stockC] bank3 (1/10) (- 1) = Inr ()"
  by (simp add: validateInputs_def stockA_def stockB_def stockC_def bank3_def MIN_INTEREST_RATE_def MAX_INTEREST_RATE_def)

lemma weights3: "spec_basketWeights (map (spec_sharpeRatio (interestRate bank3)) [stockA, stockB, stockC]) = [1/3, 1/3, 1/3]"
  by (simp add: spec_basketWeights_def spec_sharpeRatio_def stockA_def stockB_def stockC_def bank3_def)

lemma upt3: "[0..<3] = [0, 1, 2]" "[1..<3] = [1, 2]" "[2..<3] = [2]" "[3..<3] = []"
  by (simp_all add: upt_rec)

lemma variance3: "basketVariance [stockA, stockB, stockC] [1/3, 1/3, 1/3] (- 1) = - (1 / 75)"
  by (simp add: basketVariance_def upt3 stockA_def stockB_def stockC_def power2_eq_square
       eval_nat_numeral)

lemma alloc1:
  "calculateAllocation 1000 [stockA] bank3 (1/10) (1/2) =
     Inr \<lparr> res_stocks = [\<lparr> sa_name = ''A'', sa_amount = Num 500, sa_weightInBasket = 100,
                            sa_weightInTotal = Num 50 \<rparr>],
           res_bankAllocation = \<lparr> ba_name = ''Savings'', ba_amount = Num 500,
                                  ba_weightInTotal = Num 50 \<rparr>,
           res_basketMetrics = \<lparr> bm_expectedReturn = 10, bm_volatility = Num 20,
                                 bm_sharpeRatio = Finite (7/20) \<rparr>,
           res_targetPortfolioVolatility = 10,
           res_totalInvestment = 1000 \<rparr>"
proof -
  have bw: "basketWeightInPortfolio (basketMetricsOf [stockA] (interestRate bank3) (1/2))
              (interestRate bank3) (1/10) = Inr (Num (1/2))"
    unfolding basketWeightInPortfolio_def metrics1 by simp
  show ?thesis
    apply (subst calculateAllocation_stocks[OF valid1])
     apply simp
    apply (simp only: bw sum.case)
    apply (simp only: weights1 metrics1)
    apply (simp add: stockAllocationResults_def ntimes_def nminus_def)
    apply (simp add: stockA_def bank3_def)
    done
qed

text \<open>
  C4. The basket weights are the weights of the specification: the Sharpe ratios normalized
  over the sum of the positive ones, with weight zero for every non-positive ratio, when some
  ratio is positive; the equal weights \<open>1/n\<close>, and no failure, when every ratio is at most
  zero. The \<open>weightInBasket\<close> fields that \<open>calculateAllocation\<close> returns are these weights
  of the Sharpe ratios of the stocks, on the 0 to 100 scale.
\<close>

theorem basket_weights_from_sharpe_ratios:
  "calculateBasketWeights ratios names = Inr (spec_basketWeights ratios)
   \<and> ((\<exists>r\<in>set ratios. r > 0) \<longrightarrow>
      calculateBasketWeights ratios names =
        Inr (map (\<lambda>r. if r > 0 then r / sum_list (filter (\<lambda>r. r > 0) ratios) else 0) ratios))
   \<and> ((\<forall>r\<in>set ratios. r \<le> 0) \<longrightarrow>
      calculateBasketWeights ratios names =
        Inr (replicate (length ratios) (1 / real (length ratios))))
   \<and> (calculateAllocation totalAmount stocks bankAccount target correlation = Inr res \<longrightarrow>
      map sa_weightInBasket (res_stocks res) =
        map (\<lambda>w. w * 100)
          (spec_basketWeights (map (spec_sharpeRatio (interestRate bankAccount)) stocks)))"
proof (intro conjI impI)
  show "calculateBasketWeights ratios names = Inr (spec_basketWeights ratios)"
    by (rule calculateBasketWeights_spec)
next
  assume "\<exists>r\<in>set ratios. r > 0"
  then show "calculateBasketWeights ratios names =
        Inr (map (\<lambda>r. if r > 0 then r / sum_list (filter (\<lambda>r. r > 0) ratios) else 0) ratios)"
    by (rule calculateBasketWeights_positive)
next
  assume "\<forall>r\<in>set ratios. r \<le> 0"
  then show "calculateBasketWeights ratios names =
        Inr (replicate (length ratios) (1 / real (length ratios)))"
    by (simp add: calculateBasketWeights_nonpositive map_replicate_const)
next
  assume ok: "calculateAllocation totalAmount stocks bankAccount target correlation = Inr res"
  then have valid: "validateInputs totalAmount stocks bankAccount target correlation = Inr ()"
    by (cases "validateInputs totalAmount stocks bankAccount target correlation")
       (simp_all add: calculateAllocation_def)
  show "map sa_weightInBasket (res_stocks res) =
        map (\<lambda>w. w * 100)
          (spec_basketWeights (map (spec_sharpeRatio (interestRate bankAccount)) stocks))"
  proof (cases "stocks = []")
    case True
    with ok valid show ?thesis
      by (auto simp: calculateAllocation_no_stocks spec_basketWeights_def split: if_splits)
  next
    case False
    let ?ws = "spec_basketWeights (map (spec_sharpeRatio (interestRate bankAccount)) stocks)"
    have len: "length ?ws = length stocks"
      using basketWeights_length[OF calculateBasketWeights_spec] by simp
    from ok False obtain T bw where "res_stocks res = stockAllocationResults stocks ?ws T bw"
      by (auto simp: calculateAllocation_stocks[OF valid False] split: sum.splits)
    moreover have "map sa_weightInBasket (stockAllocationResults stocks ?ws T bw)
        = map (\<lambda>i. (\<lambda>w. w * 100) (?ws ! i)) [0..<length stocks]"
      by (simp add: stockAllocationResults_def comp_def)
    moreover have "\<dots> = map (\<lambda>w. w * 100) ?ws"
      using len by (rule map_index_nth)
    ultimately show ?thesis by simp
  qed
qed

theorem basket_weights_from_sharpe_ratios_witness:
  "calculateBasketWeights [7/20, - (1/10)] [''A'', ''B''] = Inr [1, 0]
   \<and> calculateBasketWeights [- (1/5), 0] [''A'', ''B''] = Inr [1/2, 1/2]
   \<and> (\<exists>res. calculateAllocation 1000 [stockA] bank3 (1/10) (1/2) = Inr res
          \<and> map sa_weightInBasket (res_stocks res) = [100])"
proof (intro conjI)
  show "calculateBasketWeights [7/20, - (1/10)] [''A'', ''B''] = Inr [1, 0]"
    using basket_weights_from_sharpe_ratios[of "[7/20, - (1/10)]" "[''A'', ''B'']"]
    by (simp add: spec_basketWeights_def)
  show "calculateBasketWeights [- (1/5), 0] [''A'', ''B''] = Inr [1/2, 1/2]"
    using basket_weights_from_sharpe_ratios[of "[- (1/5), 0]" "[''A'', ''B'']"]
    by (simp add: spec_basketWeights_def)
  show "\<exists>res. calculateAllocation 1000 [stockA] bank3 (1/10) (1/2) = Inr res
          \<and> map sa_weightInBasket (res_stocks res) = [100]"
    using basket_weights_from_sharpe_ratios[of _ _ 1000 "[stockA]" bank3 "1/10" "1/2"]
    by (simp add: alloc1 weights1)
qed

lemma calculateAllocation_valid:
  assumes "calculateAllocation totalAmount stocks bankAccount target correlation = Inr res"
  shows "validateInputs totalAmount stocks bankAccount target correlation = Inr ()"
  using assms
  by (cases "validateInputs totalAmount stocks bankAccount target correlation")
     (simp_all add: calculateAllocation_def)

lemma basketWeightInPortfolio_error:
  assumes "basketWeightInPortfolio bm r target = Inl e"
  shows "e = ZeroVolatilityBasket target \<and> bm_volatility bm = Num 0 \<and> target \<noteq> 0"
  using assms by (auto simp: basketWeightInPortfolio_def split: number.splits if_splits)

lemma calculateAllocation_error_validated:
  assumes valid: "validateInputs totalAmount stocks bankAccount target correlation = Inr ()"
    and err: "calculateAllocation totalAmount stocks bankAccount target correlation = Inl e"
  shows "(stocks = [] \<and> target \<noteq> 0 \<and> e = NoStocksForTargetVolatility target)
       \<or> (stocks \<noteq> [] \<and> target \<noteq> 0 \<and> e = ZeroVolatilityBasket target
            \<and> bm_volatility (basketMetricsOf stocks (interestRate bankAccount) correlation) = Num 0)"
proof (cases "stocks = []")
  case True
  with valid err show ?thesis
    by (auto simp: calculateAllocation_no_stocks split: if_splits)
next
  case False
  from err have "basketWeightInPortfolio (basketMetricsOf stocks (interestRate bankAccount) correlation)
             (interestRate bankAccount) target = Inl e"
    by (auto simp: calculateAllocation_stocks[OF valid False] split: sum.splits)
  from basketWeightInPortfolio_error[OF this] False show ?thesis by simp
qed

text \<open>
  The marker \<open>InfiniteSharpeRatio\<close> is never the outcome of \<open>calculateAllocation\<close>: the
  validation has rejected a stock with volatility zero before a Sharpe ratio is computed.
\<close>

lemma calculateAllocation_inside_model:
  "calculateAllocation totalAmount stocks bankAccount target correlation \<noteq> Inl InfiniteSharpeRatio"
proof (cases "validateInputs totalAmount stocks bankAccount target correlation")
  case (Inl e)
  then have "e \<noteq> InfiniteSharpeRatio"
    by (auto simp: validateInputs_def split: if_splits sum.splits
        dest!: validateStocks_error)
  with Inl show ?thesis by (simp add: calculateAllocation_invalid)
next
  case (Inr u)
  then have "validateInputs totalAmount stocks bankAccount target correlation = Inr ()" by simp
  from calculateAllocation_error_validated[OF this] show ?thesis by auto
qed

text \<open>
  C10. When \<open>validateInputs\<close> accepts the input, every Sharpe ratio is finite, the sum of the
  positive ratios is zero exactly when no ratio is positive, in that case every ratio is at
  most zero, the weight computation returns weights, and a failure of \<open>calculateAllocation\<close>
  is never the degenerate-weights failure.
\<close>

theorem degenerate_weights_unreachable:
  assumes "validateInputs totalAmount stocks bankAccount target correlation = Inr ()"
  shows "\<exists>ratios ws.
      finiteRatios (calculateStockSharpeRatios stocks (interestRate bankAccount)) = Some ratios
    \<and> (foldl (\<lambda>sum ratio. sum + ratio) 0 (filter (\<lambda>r. r > 0) ratios) = 0
          \<longleftrightarrow> \<not> (\<exists>r\<in>set ratios. r > 0))
    \<and> (foldl (\<lambda>sum ratio. sum + ratio) 0 (filter (\<lambda>r. r > 0) ratios) = 0
          \<longrightarrow> list_all (\<lambda>ratio. ratio \<le> 0) ratios)
    \<and> calculateBasketWeights ratios (map name stocks) = Inr ws
    \<and> (\<forall>e. calculateAllocation totalAmount stocks bankAccount target correlation = Inl e
          \<longrightarrow> e \<noteq> SumPositiveSharpeZero \<and> conditionOf e = UnachievableVolatility)"
proof -
  let ?ratios = "map (spec_sharpeRatio (interestRate bankAccount)) stocks"
  have "finiteRatios (calculateStockSharpeRatios stocks (interestRate bankAccount)) = Some ?ratios"
    using assms by (rule finiteRatios_spec)
  moreover have "foldl (\<lambda>sum ratio. sum + ratio) 0 (filter (\<lambda>r. r > 0) ?ratios) = 0
          \<longleftrightarrow> \<not> (\<exists>r\<in>set ?ratios. r > 0)"
    by (simp only: foldl_plus_sum_list add_0 sum_positive_zero_iff not_less bex_simps)
  moreover have "foldl (\<lambda>sum ratio. sum + ratio) 0 (filter (\<lambda>r. r > 0) ?ratios) = 0
          \<longrightarrow> list_all (\<lambda>ratio. ratio \<le> 0) ?ratios"
    by (simp add: foldl_plus_sum_list sum_positive_zero_iff list_all_iff)
  moreover have "calculateBasketWeights ?ratios (map name stocks) = Inr (spec_basketWeights ?ratios)"
    by (rule calculateBasketWeights_spec)
  moreover have "\<forall>e. calculateAllocation totalAmount stocks bankAccount target correlation = Inl e
          \<longrightarrow> e \<noteq> SumPositiveSharpeZero \<and> conditionOf e = UnachievableVolatility"
    using calculateAllocation_error_validated[OF assms] by auto
  ultimately show ?thesis by blast
qed

lemma valid1D: "validateInputs 1000 [stockD] bank3 (1/10) (1/2) = Inr ()"
  by (simp add: validateInputs_def stockD_def bank3_def MIN_INTEREST_RATE_def MAX_INTEREST_RATE_def)

lemma ratios1D: "finiteRatios (calculateStockSharpeRatios [stockD] (interestRate bank3)) = Some [- (1/10)]"
  by (simp add: calculateStockSharpeRatios_def stockSharpeRatio_def stockD_def bank3_def)

theorem degenerate_weights_unreachable_witness:
  "validateInputs 1000 [stockD] bank3 (1/10) (1/2) = Inr ()
   \<and> foldl (\<lambda>sum ratio. sum + ratio) 0 (filter (\<lambda>r. r > 0) [- (1/10) :: real]) = 0
   \<and> list_all (\<lambda>ratio. ratio \<le> 0) [- (1/10) :: real]
   \<and> (\<exists>ws. calculateBasketWeights [- (1/10)] (map name [stockD]) = Inr ws)"
  using degenerate_weights_unreachable[OF valid1D] valid1D
  by (simp add: ratios1D)


text \<open>
  C6. With no stocks and the other inputs valid: for target volatility 0 the result has no
  per-asset entry and the whole amount in the bank account, with weight 100 when the amount is
  positive and 0 when it is zero; for a target above 0 the call fails with an
  unachievable-volatility error.
\<close>

theorem empty_asset_list:
  assumes "0 \<le> totalAmount"
    and "MIN_INTEREST_RATE \<le> interestRate bankAccount"
    and "interestRate bankAccount \<le> MAX_INTEREST_RATE"
    and "0 \<le> target"
    and "- 1 \<le> correlation" and "correlation \<le> 1"
  shows "(target = 0 \<longrightarrow>
           (\<exists>res. calculateAllocation totalAmount [] bankAccount target correlation = Inr res
              \<and> res_stocks res = []
              \<and> ba_amount (res_bankAllocation res) = Num totalAmount
              \<and> ba_weightInTotal (res_bankAllocation res)
                    = Num (if totalAmount > 0 then 100 else 0)
              \<and> res_totalInvestment res = totalAmount))
       \<and> (target > 0 \<longrightarrow>
           (\<exists>e. calculateAllocation totalAmount [] bankAccount target correlation = Inl e
              \<and> conditionOf e = UnachievableVolatility))"
proof -
  from assms have "validateInputs totalAmount [] bankAccount target correlation = Inr ()"
    by (simp add: validateInputs_ok)
  note eq = calculateAllocation_no_stocks[OF this]
  show ?thesis unfolding eq using assms(4) by auto
qed

theorem empty_asset_list_witness:
  "(0::real) \<le> 1000 \<and> MIN_INTEREST_RATE \<le> interestRate bank3
   \<and> interestRate bank3 \<le> MAX_INTEREST_RATE \<and> - 1 \<le> (1/2 :: real) \<and> (1/2 :: real) \<le> 1
   \<and> (\<exists>res. calculateAllocation 1000 [] bank3 0 (1/2) = Inr res \<and> res_stocks res = []
          \<and> ba_amount (res_bankAllocation res) = Num 1000
          \<and> ba_weightInTotal (res_bankAllocation res) = Num 100)
   \<and> (\<exists>res. calculateAllocation 0 [] bank3 0 (1/2) = Inr res
          \<and> ba_amount (res_bankAllocation res) = Num 0
          \<and> ba_weightInTotal (res_bankAllocation res) = Num 0)
   \<and> (\<exists>e. calculateAllocation 1000 [] bank3 (1/10) (1/2) = Inl e
          \<and> conditionOf e = UnachievableVolatility)"
proof -
  have r: "MIN_INTEREST_RATE \<le> interestRate bank3" "interestRate bank3 \<le> MAX_INTEREST_RATE"
    by (simp_all add: bank3_def MIN_INTEREST_RATE_def MAX_INTEREST_RATE_def)
  show ?thesis
    using r empty_asset_list[of 1000 bank3 0 "1/2"] empty_asset_list[of 0 bank3 0 "1/2"]
      empty_asset_list[of 1000 bank3 "1/10" "1/2"]
    by auto
qed

lemma weightInTotal_Num:
  assumes "length ws = length stocks"
  shows "map sa_weightInTotal (stockAllocationResults stocks ws T (Num b))
           = map (\<lambda>w. Num (w * b * 100)) ws"
proof -
  have "map sa_weightInTotal (stockAllocationResults stocks ws T (Num b))
          = map (\<lambda>i. (\<lambda>w. Num (w * b * 100)) (ws ! i)) [0..<length stocks]"
    by (simp add: stockAllocationResults_def ntimes_def comp_def)
  also have "\<dots> = map (\<lambda>w. Num (w * b * 100)) ws"
    using assms by (rule map_index_nth)
  finally show ?thesis .
qed

lemma spec_basketWeights_length: "length (spec_basketWeights rs) = length rs"
  by (simp add: spec_basketWeights_def)

lemma calculateAllocation_with_weight:
  assumes valid: "validateInputs totalAmount stocks bankAccount target correlation = Inr ()"
    and nonempty: "stocks \<noteq> []"
    and bw: "basketWeightInPortfolio (basketMetricsOf stocks (interestRate bankAccount) correlation)
               (interestRate bankAccount) target = Inr (Num b)"
  shows "\<exists>res. calculateAllocation totalAmount stocks bankAccount target correlation = Inr res
     \<and> hasBasketWeight res
          (spec_basketWeights (map (spec_sharpeRatio (interestRate bankAccount)) stocks))
          totalAmount b"
  unfolding calculateAllocation_stocks[OF valid nonempty] bw hasBasketWeight_def
  by (simp add: weightInTotal_Num amounts_Num spec_basketWeights_length ntimes_def nminus_def)


text \<open>
  C5. For a non-empty list of stocks that passes validation, with the basket volatility that
  \<open>calculateBasketMetrics\<close> computes from the Sharpe-ratio weights: if it is above 0 the
  basket weight in the portfolio is the target volatility divided by it; if it is 0 and the
  target is 0 the weight is 1 when the basket return is above the risk-free rate and 0
  otherwise; in both cases the bank weight is 1 minus the basket weight; if it is 0 and the
  target is not 0 the call fails with an unachievable-volatility error.
\<close>

theorem basket_weight_in_portfolio:
  assumes valid: "validateInputs totalAmount stocks bankAccount target correlation = Inr ()"
    and nonempty: "stocks \<noteq> []"
  shows "\<exists>ratios ws.
     finiteRatios (calculateStockSharpeRatios stocks (interestRate bankAccount)) = Some ratios
   \<and> calculateBasketWeights ratios (map name stocks) = Inr ws
   \<and> (let bm = calculateBasketMetrics stocks ws (interestRate bankAccount) correlation in
        (\<forall>v. bm_volatility bm = Num v \<and> v > 0 \<longrightarrow>
           (\<exists>res. calculateAllocation totalAmount stocks bankAccount target correlation = Inr res
              \<and> hasBasketWeight res ws totalAmount (target / v)))
      \<and> (bm_volatility bm = Num 0 \<and> target = 0 \<longrightarrow>
           (\<exists>res. calculateAllocation totalAmount stocks bankAccount target correlation = Inr res
              \<and> hasBasketWeight res ws totalAmount
                   (if bm_expectedReturn bm > interestRate bankAccount then 1 else 0)))
      \<and> (bm_volatility bm = Num 0 \<and> target \<noteq> 0 \<longrightarrow>
           (\<exists>e. calculateAllocation totalAmount stocks bankAccount target correlation = Inl e
              \<and> conditionOf e = UnachievableVolatility)))"
proof -
  let ?r = "interestRate bankAccount"
  let ?ratios = "map (spec_sharpeRatio ?r) stocks"
  let ?ws = "spec_basketWeights ?ratios"
  let ?bm = "calculateBasketMetrics stocks ?ws ?r correlation"
  have bm: "basketMetricsOf stocks ?r correlation = ?bm"
    by (simp add: basketMetricsOf_def)
  have pos: "\<exists>res. calculateAllocation totalAmount stocks bankAccount target correlation = Inr res
              \<and> hasBasketWeight res ?ws totalAmount (target / v)"
    if "bm_volatility ?bm = Num v" "v > 0" for v
  proof (rule calculateAllocation_with_weight[OF valid nonempty])
    show "basketWeightInPortfolio (basketMetricsOf stocks ?r correlation) ?r target
            = Inr (Num (target / v))"
      using that by (simp add: bm basketWeightInPortfolio_def)
  qed
  have zero: "\<exists>res. calculateAllocation totalAmount stocks bankAccount target correlation = Inr res
              \<and> hasBasketWeight res ?ws totalAmount
                   (if bm_expectedReturn ?bm > ?r then 1 else 0)"
    if "bm_volatility ?bm = Num 0" "target = 0"
  proof (rule calculateAllocation_with_weight[OF valid nonempty])
    show "basketWeightInPortfolio (basketMetricsOf stocks ?r correlation) ?r target
            = Inr (Num (if bm_expectedReturn ?bm > ?r then 1 else 0))"
      using that by (simp add: bm basketWeightInPortfolio_def)
  qed
  have fail: "\<exists>e. calculateAllocation totalAmount stocks bankAccount target correlation = Inl e
              \<and> conditionOf e = UnachievableVolatility"
    if "bm_volatility ?bm = Num 0" "target \<noteq> 0"
  proof -
    have "basketWeightInPortfolio (basketMetricsOf stocks ?r correlation) ?r target
            = Inl (ZeroVolatilityBasket target)"
      using that by (simp add: bm basketWeightInPortfolio_def)
    then show ?thesis
      by (simp add: calculateAllocation_stocks[OF valid nonempty])
  qed
  have "finiteRatios (calculateStockSharpeRatios stocks ?r) = Some ?ratios"
    using valid by (rule finiteRatios_spec)
  moreover have "calculateBasketWeights ?ratios (map name stocks) = Inr ?ws"
    by (rule calculateBasketWeights_spec)
  moreover have "let bm = ?bm in
        (\<forall>v. bm_volatility bm = Num v \<and> v > 0 \<longrightarrow>
           (\<exists>res. calculateAllocation totalAmount stocks bankAccount target correlation = Inr res
              \<and> hasBasketWeight res ?ws totalAmount (target / v)))
      \<and> (bm_volatility bm = Num 0 \<and> target = 0 \<longrightarrow>
           (\<exists>res. calculateAllocation totalAmount stocks bankAccount target correlation = Inr res
              \<and> hasBasketWeight res ?ws totalAmount
                   (if bm_expectedReturn bm > ?r then 1 else 0)))
      \<and> (bm_volatility bm = Num 0 \<and> target \<noteq> 0 \<longrightarrow>
           (\<exists>e. calculateAllocation totalAmount stocks bankAccount target correlation = Inl e
              \<and> conditionOf e = UnachievableVolatility))"
    unfolding Let_def using pos zero fail by blast
  ultimately show ?thesis by blast
qed

lemma valid2: "validateInputs 1000 [stockA, stockB] bank3 t (- 1) = Inr () \<longleftrightarrow> 0 \<le> t"
  by (auto simp: validateInputs_def stockA_def stockB_def bank3_def MIN_INTEREST_RATE_def
      MAX_INTEREST_RATE_def)

lemma ratios1: "finiteRatios (calculateStockSharpeRatios [stockA] (interestRate bank3)) = Some [7/20]"
  by (simp add: calculateStockSharpeRatios_def stockSharpeRatio_def stockA_def bank3_def)

lemma ratios2:
  "finiteRatios (calculateStockSharpeRatios [stockA, stockB] (interestRate bank3)) = Some [7/20, 7/20]"
  by (simp add: calculateStockSharpeRatios_def stockSharpeRatio_def stockA_def stockB_def bank3_def)

lemma cbw1: "calculateBasketWeights [7/20] names = Inr [1]"
  by (simp add: calculateBasketWeights_spec spec_basketWeights_def)

lemma cbw2: "calculateBasketWeights [7/20, 7/20] names = Inr [1/2, 1/2]"
  by (simp add: calculateBasketWeights_spec spec_basketWeights_def)

lemma upt2: "[0..<2] = [0, 1]" "[1..<2] = [1]" "[2..<2] = []"
  by (simp_all add: upt_rec)

lemma cbm1: "calculateBasketMetrics [stockA] [1] (interestRate bank3) (1/2)
   = \<lparr> bm_expectedReturn = 1/10, bm_volatility = Num (1/5), bm_sharpeRatio = Finite (7/20) \<rparr>"
  using metrics1 by (simp only: basketMetricsOf_def weights1)

lemma cbm2: "calculateBasketMetrics [stockA, stockB] [1/2, 1/2] (interestRate bank3) (- 1)
   = \<lparr> bm_expectedReturn = 1/10, bm_volatility = Num 0, bm_sharpeRatio = PosInfinity \<rparr>"
  by (simp add: calculateBasketMetrics_def basketExpectedReturn_def basketVariance_def Math_sqrt_def
       stockA_def stockB_def bank3_def Let_def power2_eq_square upt2 eval_nat_numeral)

theorem basket_weight_in_portfolio_witness:
  "validateInputs 1000 [stockA] bank3 (1/10) (1/2) = Inr () \<and> [stockA] \<noteq> []
   \<and> (\<exists>res. calculateAllocation 1000 [stockA] bank3 (1/10) (1/2) = Inr res
          \<and> hasBasketWeight res [1] 1000 (1/2))
   \<and> validateInputs 1000 [stockA, stockB] bank3 0 (- 1) = Inr ()
   \<and> (\<exists>res. calculateAllocation 1000 [stockA, stockB] bank3 0 (- 1) = Inr res
          \<and> hasBasketWeight res [1/2, 1/2] 1000 1)
   \<and> validateInputs 1000 [stockA, stockB] bank3 (1/10) (- 1) = Inr ()
   \<and> (\<exists>e. calculateAllocation 1000 [stockA, stockB] bank3 (1/10) (- 1) = Inl e
          \<and> conditionOf e = UnachievableVolatility)"
proof -
  have v0: "validateInputs 1000 [stockA, stockB] bank3 0 (- 1) = Inr ()"
    and v1: "validateInputs 1000 [stockA, stockB] bank3 (1/10) (- 1) = Inr ()"
    by (simp_all add: valid2)
  have a: "\<exists>res. calculateAllocation 1000 [stockA] bank3 (1/10) (1/2) = Inr res
          \<and> hasBasketWeight res [1] 1000 (1/2)"
    using basket_weight_in_portfolio[OF valid1]
    apply (simp add: ratios1 cbw1 cbm1)
    apply (drule spec[where x = "1/5"])
    apply simp
    done
  have b: "\<exists>res. calculateAllocation 1000 [stockA, stockB] bank3 0 (- 1) = Inr res
          \<and> hasBasketWeight res [1/2, 1/2] 1000 1"
    using basket_weight_in_portfolio[OF v0]
    by (simp add: ratios2 cbw2 cbm2) (simp add: bank3_def)
  have c: "\<exists>e. calculateAllocation 1000 [stockA, stockB] bank3 (1/10) (- 1) = Inl e
          \<and> conditionOf e = UnachievableVolatility"
    using basket_weight_in_portfolio[OF v1]
    by (simp add: ratios2 cbw2 cbm2)
  from valid1 v0 v1 a b c show ?thesis by simp
qed


lemma allocation_sums_finite:
  assumes ok: "calculateAllocation totalAmount stocks bankAccount target correlation = Inr res"
    and nonempty: "stocks \<noteq> []"
    and finite: "bm_volatility (res_basketMetrics res) \<noteq> NaN"
  shows "\<exists>b. basketWeightInPortfolio (basketMetricsOf stocks (interestRate bankAccount) correlation)
               (interestRate bankAccount) target = Inr (Num b)
     \<and> foldl nplus (Num 0) (map sa_amount (res_stocks res)) = Num (totalAmount * b)
     \<and> nplus (foldl nplus (Num 0) (map sa_amount (res_stocks res)))
           (ba_amount (res_bankAllocation res)) = Num totalAmount"
proof -
  let ?r = "interestRate bankAccount"
  let ?ws = "spec_basketWeights (map (spec_sharpeRatio ?r) stocks)"
  let ?bm = "basketMetricsOf stocks ?r correlation"
  note valid = calculateAllocation_valid[OF ok]
  from ok obtain bw where bw: "basketWeightInPortfolio ?bm ?r target = Inr bw"
    and vol: "bm_volatility (res_basketMetrics res) = ntimes (bm_volatility ?bm) (Num 100)"
    by (auto simp: calculateAllocation_stocks[OF valid nonempty] split: sum.splits)
  from finite vol obtain v where v: "bm_volatility ?bm = Num v"
    by (cases "bm_volatility ?bm") (simp_all add: ntimes_def)
  have "\<exists>b. bw = Num b"
    using bw v by (cases "v = 0"; cases "target = 0") (auto simp: basketWeightInPortfolio_def)
  then obtain b where b: "bw = Num b" ..
  from calculateAllocation_with_weight[OF valid nonempty bw[unfolded b]] ok
  have hw: "hasBasketWeight res ?ws totalAmount b" by simp
  have sum1: "sum_list ?ws = 1"
    using basketWeights_sum[OF calculateBasketWeights_spec] nonempty by simp
  have "foldl nplus (Num 0) (map sa_amount (res_stocks res))
          = foldl nplus (Num 0) (map Num (map (\<lambda>w. totalAmount * b * w) ?ws))"
    using hw by (simp add: hasBasketWeight_def comp_def)
  also have "\<dots> = Num (sum_list (map (\<lambda>w. totalAmount * b * w) ?ws))"
    by (simp only: foldl_nplus_Num add_0)
  also have "sum_list (map (\<lambda>w. totalAmount * b * w) ?ws) = totalAmount * b * sum_list ?ws"
    by (simp add: sum_list_const_mult)
  finally have amounts: "foldl nplus (Num 0) (map sa_amount (res_stocks res)) = Num (totalAmount * b)"
    by (simp add: sum1)
  moreover have "nplus (Num (totalAmount * b)) (ba_amount (res_bankAllocation res)) = Num totalAmount"
    using hw by (simp add: hasBasketWeight_def nplus_def algebra_simps)
  ultimately show ?thesis using bw b by simp
qed

text \<open>
  C1, at an input that passes validation: three stocks with equal Sharpe ratios and
  volatilities and correlation \<open>-1\<close>. The basket variance is negative, its square root is
  \<open>NaN\<close>, and every amount that \<open>calculateAllocation\<close> returns is \<open>NaN\<close>.
\<close>

theorem allocation_amounts_nan:
  "validateInputs 1000 [stockA, stockB, stockC] bank3 (1/10) (- 1) = Inr ()
   \<and> basketVariance [stockA, stockB, stockC] [1/3, 1/3, 1/3] (- 1) = - (1/75)
   \<and> (\<exists>res. calculateAllocation 1000 [stockA, stockB, stockC] bank3 (1/10) (- 1) = Inr res
          \<and> bm_volatility (res_basketMetrics res) = NaN
          \<and> map sa_amount (res_stocks res) = [NaN, NaN, NaN]
          \<and> ba_amount (res_bankAllocation res) = NaN
          \<and> foldl nplus (Num 0) (map sa_amount (res_stocks res)) = NaN)"
proof -
  have vol: "bm_volatility (basketMetricsOf [stockA, stockB, stockC] (interestRate bank3) (- 1)) = NaN"
    unfolding basketMetricsOf_def weights3
    by (simp add: calculateBasketMetrics_def Let_def variance3 Math_sqrt_def)
  have bw: "basketWeightInPortfolio (basketMetricsOf [stockA, stockB, stockC] (interestRate bank3) (- 1))
              (interestRate bank3) (1/10) = Inr NaN"
    by (simp add: basketWeightInPortfolio_def vol)
  have "\<exists>res. calculateAllocation 1000 [stockA, stockB, stockC] bank3 (1/10) (- 1) = Inr res
          \<and> bm_volatility (res_basketMetrics res) = NaN
          \<and> map sa_amount (res_stocks res) = [NaN, NaN, NaN]
          \<and> ba_amount (res_bankAllocation res) = NaN
          \<and> foldl nplus (Num 0) (map sa_amount (res_stocks res)) = NaN"
    apply (subst calculateAllocation_stocks[OF valid3])
     apply simp
    apply (simp only: bw sum.case vol)
    apply (simp add: amounts_NaN ntimes_def nminus_def nplus_def upt3)
    done
  with valid3 variance3 show ?thesis by simp
qed

section \<open>Monthly returns and normal samples\<close>


lemma actualMonthlyReturn_floor: "- 1 \<le> actualMonthlyReturn scenario stock randomFactor"
  by (simp add: actualMonthlyReturn_def Let_def)





lemma normal_example: "generateStandardNormalRandom [0, 1/2, 1/4] = Some (0, [])"
  by (simp add: generateStandardNormalRandom_def Let_def)

lemma return_example: "actualMonthlyReturn AVERAGE stockA 0 = 1/120"
  by (simp add: actualMonthlyReturn_def Let_def stockA_def)


lemma grow_example:
  "growStocks AVERAGE [stockA] [(''A'', Num 500)] [] [0, 1/2, 1/4] = Some ([(''A'', Num (12100/24))], [])"
  by (simp add: normal_example return_example ntimes_def) (simp add: stockA_def)



section \<open>The run: random draws and cumulative capital\<close>

lemma firstNonZero_enough:
  assumes "1 \<le> nonZeroDraws tape"
  shows "\<exists>x tape'. firstNonZero tape = Some (x, tape') \<and> nonZeroDraws tape' = nonZeroDraws tape - 1"
  using assms by (induction tape) (auto simp: nonZeroDraws_def)

lemma generateStandardNormalRandom_enough:
  assumes "2 \<le> nonZeroDraws tape"
  shows "\<exists>rf tape'. generateStandardNormalRandom tape = Some (rf, tape')
           \<and> nonZeroDraws tape' = nonZeroDraws tape - 2"
proof -
  from assms have "1 \<le> nonZeroDraws tape" by simp
  from firstNonZero_enough[OF this] obtain u tape1 where
    u: "firstNonZero tape = Some (u, tape1)" "nonZeroDraws tape1 = nonZeroDraws tape - 1"
    by blast
  from assms u have "1 \<le> nonZeroDraws tape1" by simp
  from firstNonZero_enough[OF this] obtain v tape2 where
    v: "firstNonZero tape1 = Some (v, tape2)" "nonZeroDraws tape2 = nonZeroDraws tape1 - 1"
    by blast
  from u v show ?thesis
    by (simp add: generateStandardNormalRandom_def Let_def)
qed

lemma growStocks_enough:
  assumes "2 * length stocks \<le> nonZeroDraws tape"
  shows "\<exists>grown tape'. growStocks scenario stocks cur acc tape = Some (grown, tape')
           \<and> nonZeroDraws tape' = nonZeroDraws tape - 2 * length stocks"
  using assms
proof (induction stocks arbitrary: acc tape)
  case Nil
  then show ?case by simp
next
  case (Cons stock rest)
  from Cons.prems have "2 \<le> nonZeroDraws tape" by simp
  from generateStandardNormalRandom_enough[OF this] obtain rf tape1 where
    rf: "generateStandardNormalRandom tape = Some (rf, tape1)"
        "nonZeroDraws tape1 = nonZeroDraws tape - 2"
    by blast
  with Cons.prems have "2 * length rest \<le> nonZeroDraws tape1" by simp
  from Cons.IH[OF this] rf show ?case by auto
qed

lemma simulateMonth_enough:
  assumes "2 * length stocks \<le> nonZeroDraws tape"
  shows "\<exists>tr tape'. simulateMonth dep stocks bank target scenario corr m s tape = Some (tr, tape')
           \<and> nonZeroDraws tape' = nonZeroDraws tape - 2 * length stocks"
proof -
  from growStocks_enough[OF assms] obtain grown tape' where
    "growStocks scenario stocks (currentStockHoldings s) [] tape = Some (grown, tape')"
    "nonZeroDraws tape' = nonZeroDraws tape - 2 * length stocks"
    by blast
  then show ?thesis
    by (simp add: simulateMonth_def Let_def split: prod.splits)
qed

lemma simulateMonths_enough:
  assumes "2 * length stocks * n \<le> nonZeroDraws tape"
  shows "\<exists>trs. simulateMonths dep stocks bank target scenario corr n m s tape = Some trs"
  using assms
proof (induction n arbitrary: m s tape)
  case 0
  then show ?case by simp
next
  case (Suc n)
  then have "2 * length stocks \<le> nonZeroDraws tape" by simp
  from simulateMonth_enough[OF this] obtain tr tape' where
    tr: "simulateMonth dep stocks bank target scenario corr m s tape = Some (tr, tape')"
        "nonZeroDraws tape' = nonZeroDraws tape - 2 * length stocks"
    by blast
  with Suc.prems have "2 * length stocks * n \<le> nonZeroDraws tape'" by simp
  from Suc.IH[OF this] tr(1) show ?case by auto
qed

lemma simulateMonths_length:
  assumes "simulateMonths dep stocks bank target scenario corr n m s tape = Some trs"
  shows "length trs = n"
  using assms
  by (induction n arbitrary: m s tape trs) (auto split: option.splits)

lemma simulateMonth_cumulative:
  assumes "simulateMonth dep stocks bank target scenario corr m s tape = Some (tr, tape')"
  shows "cumulativeCapitalInvested (tr_state tr) = cumulativeCapitalInvested s + dep
       \<and> totalCapitalInvested (tr_recorded tr) = toFixed2 (cumulativeCapitalInvested s + dep)
       \<and> month (tr_recorded tr) = m"
  using assms
  by (auto simp: simulateMonth_def Let_def split: option.splits prod.splits)

lemma simulateMonths_cumulative:
  assumes "simulateMonths dep stocks bank target scenario corr n m s tape = Some trs"
    and "i < n"
  shows "totalCapitalInvested (tr_recorded (trs ! i))
           = toFixed2 (cumulativeCapitalInvested s + real (Suc i) * dep)
       \<and> month (tr_recorded (trs ! i)) = m + i"
  using assms
proof (induction n arbitrary: m s tape trs i)
  case 0
  then show ?case by simp
next
  case (Suc n)
  from Suc.prems(1) obtain tr tape' rest where
    tr: "simulateMonth dep stocks bank target scenario corr m s tape = Some (tr, tape')"
    and rest: "simulateMonths dep stocks bank target scenario corr n (Suc m) (tr_state tr) tape'
                 = Some rest"
    and trs: "trs = tr # rest"
    by (auto split: option.splits)
  note c = simulateMonth_cumulative[OF tr]
  show ?case
  proof (cases i)
    case 0
    with c trs show ?thesis by simp
  next
    case (Suc j)
    with Suc.prems(2) have "j < n" by simp
    from Suc.IH[OF rest this] c trs Suc show ?thesis
      by (simp add: algebra_simps)
  qed
qed

lemma initialState_cumulative:
  "cumulativeCapitalInvested (initialState init stocks bank target corr)
     = (if init > 0 then init else 0)"
  by (simp add: initialState_def Let_def split: sum.splits)


lemma simulateTrace_Inr:
  assumes "simulateTrace init dep stocks bank target dur scenario corr tape = Some (Inr (r0, trs))"
  shows "0 \<le> init \<and> 0 \<le> dep \<and> 0 \<le> dur \<and> real_of_int \<lfloor>dur\<rfloor> = dur
       \<and> \<not> (stocks = [] \<and> target > 0)
       \<and> r0 = recordMonth0 (initialState init stocks bank target corr)
       \<and> simulateMonths dep stocks bank target scenario corr (nat \<lfloor>dur\<rfloor>) 1
            (initialState init stocks bank target corr) tape = Some trs"
  using assms
  by (auto simp: simulateTrace_def Let_def split: if_splits)

lemma simulateInvestmentStrategy_Inr:
  "simulateInvestmentStrategy init dep stocks bank target dur scenario corr tape = Some (Inr history)
   \<longleftrightarrow> (\<exists>r0 trs. simulateTrace init dep stocks bank target dur scenario corr tape
                      = Some (Inr (r0, trs))
                  \<and> history = r0 # map tr_recorded trs)"
proof (cases "simulateTrace init dep stocks bank target dur scenario corr tape")
  case None
  then show ?thesis by (simp add: simulateInvestmentStrategy_def)
next
  case (Some r)
  then show ?thesis
    by (cases r) (auto simp: simulateInvestmentStrategy_def)
qed

lemma simulateTrace_returns:
  assumes "0 \<le> init" "0 \<le> dep" "0 \<le> dur" "real_of_int \<lfloor>dur\<rfloor> = dur"
    and "stocks = [] \<longrightarrow> target = 0"
    and "2 * length stocks * nat \<lfloor>dur\<rfloor> \<le> nonZeroDraws tape"
  shows "\<exists>r0 trs. simulateTrace init dep stocks bank target dur scenario corr tape
                     = Some (Inr (r0, trs))
                 \<and> length trs = nat \<lfloor>dur\<rfloor>"
proof -
  from simulateMonths_enough[OF assms(6)] obtain trs where
    trs: "simulateMonths dep stocks bank target scenario corr (nat \<lfloor>dur\<rfloor>) 1
            (initialState init stocks bank target corr) tape = Some trs"
    by blast
  from simulateMonths_length[OF trs] trs assms(1-5) show ?thesis
    by (auto simp: simulateTrace_def Let_def)
qed

lemma toFixed2_hundredths:
  assumes "0 \<le> x" "x * 100 = real_of_int k"
  shows "toFixed2 x = x"
proof (cases "x = 0")
  case True
  then show ?thesis by (simp add: toFixed2_def)
next
  case False
  with assms have pos: "0 < x" by simp
  have "\<lfloor>x * 100 + 1 / 2\<rfloor> = k"
    unfolding assms(2) by linarith
  with pos assms(2) show ?thesis
    by (auto simp: toFixed2_def)
qed

text \<open>
  C2, as amended. The cumulative-capital field of month 0 is the initial investment; the
  field of a month \<open>N \<ge> 1\<close> is the initial investment plus \<open>N\<close> monthly deposits rounded by
  \<open>parseFloat(x.toFixed(2))\<close>, whatever the random draws and the outcome of the allocation
  calls. It is the sum itself when the sum is a whole number of hundredths.
\<close>

theorem cumulative_capital_recorded:
  assumes "simulateInvestmentStrategy initialInvestment monthlyDeposit stocks bankAccount target
             durationInMonths scenario correlation tape = Some (Inr history)"
  shows "length history = nat \<lfloor>durationInMonths\<rfloor> + 1
     \<and> (\<forall>N \<le> nat \<lfloor>durationInMonths\<rfloor>.
          month (history ! N) = N
        \<and> totalCapitalInvested (history ! N)
            = (if N = 0 then initialInvestment
               else toFixed2 (initialInvestment + real N * monthlyDeposit))
        \<and> ((\<exists>k::int. (initialInvestment + real N * monthlyDeposit) * 100 = real_of_int k)
              \<longrightarrow> totalCapitalInvested (history ! N)
                    = initialInvestment + real N * monthlyDeposit))"
proof -
  let ?s0 = "initialState initialInvestment stocks bankAccount target correlation"
  from assms obtain r0 trs where
    tr: "simulateTrace initialInvestment monthlyDeposit stocks bankAccount target
           durationInMonths scenario correlation tape = Some (Inr (r0, trs))"
    and h: "history = r0 # map tr_recorded trs"
    by (auto simp: simulateInvestmentStrategy_Inr)
  note inv = simulateTrace_Inr[OF tr]
  from inv have months: "simulateMonths monthlyDeposit stocks bankAccount target scenario correlation
       (nat \<lfloor>durationInMonths\<rfloor>) 1 ?s0 tape = Some trs" by simp
  note len = simulateMonths_length[OF months]
  from inv have c0: "cumulativeCapitalInvested ?s0 = initialInvestment"
    by (simp add: initialState_cumulative)
  have each: "month (history ! N) = N
        \<and> totalCapitalInvested (history ! N)
            = (if N = 0 then initialInvestment
               else toFixed2 (initialInvestment + real N * monthlyDeposit))"
    if "N \<le> nat \<lfloor>durationInMonths\<rfloor>" for N
  proof (cases N)
    case 0
    with h inv c0 show ?thesis by (simp add: recordMonth0_def)
  next
    case (Suc i)
    with that have "i < nat \<lfloor>durationInMonths\<rfloor>" by simp
    from simulateMonths_cumulative[OF months this] h Suc len this c0 show ?thesis
      by simp
  qed
  have exact: "totalCapitalInvested (history ! N) = initialInvestment + real N * monthlyDeposit"
    if "N \<le> nat \<lfloor>durationInMonths\<rfloor>"
      and "\<exists>k::int. (initialInvestment + real N * monthlyDeposit) * 100 = real_of_int k" for N
  proof -
    from inv have "0 \<le> initialInvestment + real N * monthlyDeposit" by simp
    with that(2) have "toFixed2 (initialInvestment + real N * monthlyDeposit)
                         = initialInvestment + real N * monthlyDeposit"
      by (auto intro: toFixed2_hundredths)
    with each[OF that(1)] show ?thesis by simp
  qed
  from len h each exact show ?thesis by simp
qed


lemma valid_no_stocks: "0 \<le> t \<Longrightarrow> validateInputs t [] bank3 0 (1/2) = Inr ()"
  by (simp add: validateInputs_def bank3_def MIN_INTEREST_RATE_def MAX_INTEREST_RATE_def)

lemma alloc_no_stocks:
  "0 \<le> t \<Longrightarrow> \<exists>res. calculateAllocation t [] bank3 0 (1/2) = Inr res
     \<and> res_stocks res = [] \<and> ba_amount (res_bankAllocation res) = Num t"
  by (simp add: calculateAllocation_no_stocks[OF valid_no_stocks])

lemma month_no_stocks:
  assumes "0 \<le> b" "0 \<le> dep" "0 < b * (1 + 1/400) + dep"
  shows "simulateMonth dep [] bank3 0 AVERAGE (1/2) m
           \<lparr> currentStockHoldings = [], currentBankHolding = Num b,
             cumulativeCapitalInvested = c \<rparr> []
         = Some (\<lparr> tr_grownStockHoldings = [],
                    tr_totalCapitalForReallocation = Num (b * (1 + 1/400) + dep),
                    tr_state = \<lparr> currentStockHoldings = [],
                                 currentBankHolding = Num (b * (1 + 1/400) + dep),
                                 cumulativeCapitalInvested = c + dep \<rparr>,
                    tr_recorded = \<lparr> month = m, stockValues = [],
                                    bankValue = Num (toFixed2 (b * (1 + 1/400) + dep)),
                                    totalPortfolioValue = Num (toFixed2 (b * (1 + 1/400) + dep)),
                                    totalCapitalInvested = toFixed2 (c + dep) \<rparr> \<rparr>, [])"
proof -
  have t: "0 \<le> b * (1 + 1/400) + dep" using assms by simp
  have r: "interestRate bank3 / 12 = 1/400" by (simp add: bank3_def)
  from alloc_no_stocks[OF t] obtain res where
    res: "calculateAllocation (b * (1 + 1/400) + dep) [] bank3 0 (1/2) = Inr res"
         "res_stocks res = []" "ba_amount (res_bankAllocation res) = Num (b * (1 + 1/400) + dep)"
    by blast
  show ?thesis
    using assms(3) res
    by (simp add: simulateMonth_def Let_def r sumValues_def nplus_def ntimes_def rebalance_def
        applyAllocation_def clampHoldings_def)
qed


lemma init_no_stocks:
  assumes "0 \<le> init"
  shows "initialState init [] bank3 0 (1/2)
         = \<lparr> currentStockHoldings = [], currentBankHolding = Num init,
             cumulativeCapitalInvested = init \<rparr>"
proof -
  from alloc_no_stocks[OF assms] obtain res where
    "calculateAllocation init [] bank3 0 (1/2) = Inr res" "res_stocks res = []"
    "ba_amount (res_bankAllocation res) = Num init"
    by blast
  with assms show ?thesis
    by (simp add: initialState_def Let_def zeroStocks_def applyAllocation_def)
qed

lemma toFixed2_examples:
  "toFixed2 (1/1000) = 0" "toFixed2 1100 = 1100" "toFixed2 1200 = 1200"
  "toFixed2 (2205/2) = 2205/2" "toFixed2 (192841/160) = 60263/50"
  by (simp_all add: toFixed2_def)

lemma run_small:
  "simulateInvestmentStrategy 0 (1/1000) [] bank3 0 1 AVERAGE (1/2) [] =
     Some (Inr [\<lparr> month = 0, stockValues = [], bankValue = Num 0, totalPortfolioValue = Num 0,
                  totalCapitalInvested = 0 \<rparr>,
                \<lparr> month = 1, stockValues = [], bankValue = Num 0, totalPortfolioValue = Num 0,
                  totalCapitalInvested = 0 \<rparr>])"
  by (simp add: simulateInvestmentStrategy_def simulateTrace_def Let_def init_no_stocks
      month_no_stocks recordMonth0_def sumValues_def nplus_def toFixed2_examples)

lemma run_two:
  "simulateInvestmentStrategy 1000 100 [] bank3 0 2 AVERAGE (1/2) [] =
     Some (Inr [\<lparr> month = 0, stockValues = [], bankValue = Num 1000,
                  totalPortfolioValue = Num 1000, totalCapitalInvested = 1000 \<rparr>,
                \<lparr> month = 1, stockValues = [], bankValue = Num (2205/2),
                  totalPortfolioValue = Num (2205/2), totalCapitalInvested = 1100 \<rparr>,
                \<lparr> month = 2, stockValues = [], bankValue = Num (60263/50),
                  totalPortfolioValue = Num (60263/50), totalCapitalInvested = 1200 \<rparr>])"
  by (simp add: simulateInvestmentStrategy_def simulateTrace_def Let_def init_no_stocks
      month_no_stocks recordMonth0_def sumValues_def nplus_def toFixed2_examples
      numeral_2_eq_2)

theorem cumulative_capital_counterexample:
  "simulateInvestmentStrategy 0 (1/1000) [] bank3 0 1 AVERAGE (1/2) [] =
     Some (Inr [\<lparr> month = 0, stockValues = [], bankValue = Num 0, totalPortfolioValue = Num 0,
                  totalCapitalInvested = 0 \<rparr>,
                \<lparr> month = 1, stockValues = [], bankValue = Num 0, totalPortfolioValue = Num 0,
                  totalCapitalInvested = 0 \<rparr>])
   \<and> totalCapitalInvested
         \<lparr> month = 1, stockValues = [], bankValue = Num 0, totalPortfolioValue = Num 0,
           totalCapitalInvested = 0 \<rparr> \<noteq> 0 + 1 * (1/1000)"
  using run_small by simp

theorem cumulative_capital_recorded_witness:
  "simulateInvestmentStrategy 1000 100 [] bank3 0 2 AVERAGE (1/2) [] =
     Some (Inr [\<lparr> month = 0, stockValues = [], bankValue = Num 1000,
                  totalPortfolioValue = Num 1000, totalCapitalInvested = 1000 \<rparr>,
                \<lparr> month = 1, stockValues = [], bankValue = Num (2205/2),
                  totalPortfolioValue = Num (2205/2), totalCapitalInvested = 1100 \<rparr>,
                \<lparr> month = 2, stockValues = [], bankValue = Num (60263/50),
                  totalPortfolioValue = Num (60263/50), totalCapitalInvested = 1200 \<rparr>])
   \<and> (2::nat) \<le> nat \<lfloor>2::real\<rfloor>
   \<and> (\<exists>k::int. (1000 + real 2 * 100) * 100 = real_of_int k)
   \<and> (1200::real) = 1000 + real 2 * 100
   \<and> (1200::real) = toFixed2 (1000 + real 2 * 100)"
proof -
  have k: "\<exists>k::int. (1000 + real 2 * 100) * 100 = real_of_int k"
    by (rule exI[of _ 120000]) simp
  have le: "(2::nat) \<le> nat \<lfloor>2::real\<rfloor>" by simp
  note c = cumulative_capital_recorded[OF run_two, THEN conjunct2, rule_format, of 2]
  from c[OF le] have t: "(1200::real) = toFixed2 (1000 + real 2 * 100)"
    by (simp del: of_nat_numeral)
  have e: "(1200::real) = 1000 + real 2 * 100" by simp
  show ?thesis by (intro conjI run_two le k e t)
qed

section \<open>Allocation results along a run\<close>

lemma validateInputs_amount:
  assumes "0 \<le> t1" "0 \<le> t2"
  shows "validateInputs t1 stocks bank target corr = validateInputs t2 stocks bank target corr"
  using assms by (simp add: validateInputs_def)

lemma calculateAllocation_fails_amount:
  assumes "0 \<le> t1" "0 \<le> t2"
    and "calculateAllocation t1 stocks bank target corr = Inl e"
  shows "calculateAllocation t2 stocks bank target corr = Inl e"
proof (cases "validateInputs t1 stocks bank target corr")
  case (Inl e')
  with assms(3) have "e' = e" by (simp add: calculateAllocation_invalid)
  with Inl validateInputs_amount[OF assms(1,2)] show ?thesis
    by (simp add: calculateAllocation_invalid)
next
  case (Inr u)
  then have v1: "validateInputs t1 stocks bank target corr = Inr ()" by simp
  with validateInputs_amount[OF assms(1,2)]
  have v2: "validateInputs t2 stocks bank target corr = Inr ()" by simp
  show ?thesis
  proof (cases "stocks = []")
    case True
    with assms(3) v1 v2 show ?thesis
      by (auto simp: calculateAllocation_no_stocks split: if_splits)
  next
    case False
    from assms(3) show ?thesis
      by (auto simp: calculateAllocation_stocks[OF v1 False] calculateAllocation_stocks[OF v2 False]
          split: sum.splits)
  qed
qed

lemma allocationFails_iff:
  assumes "0 \<le> t"
  shows "allocationFails stocks bank target corr
           \<longleftrightarrow> (\<exists>e. calculateAllocation t stocks bank target corr = Inl e)"
proof
  assume "allocationFails stocks bank target corr"
  then obtain e where "calculateAllocation 1 stocks bank target corr = Inl e"
    by (auto simp: allocationFails_def split: sum.splits)
  from calculateAllocation_fails_amount[OF _ assms this] show
    "\<exists>e. calculateAllocation t stocks bank target corr = Inl e" by auto
next
  assume "\<exists>e. calculateAllocation t stocks bank target corr = Inl e"
  then obtain e where "calculateAllocation t stocks bank target corr = Inl e" ..
  from calculateAllocation_fails_amount[OF assms _ this, of 1] show
    "allocationFails stocks bank target corr"
    by (simp add: allocationFails_def)
qed

lemma Math_sqrt_nonneg: "Math_sqrt x = Num v \<Longrightarrow> 0 \<le> v"
  by (auto simp: Math_sqrt_def split: if_splits)

lemma basketMetricsOf_volatility_nonneg:
  "bm_volatility (basketMetricsOf stocks r corr) = Num v \<Longrightarrow> 0 \<le> v"
  by (auto simp: basketMetricsOf_def calculateBasketMetrics_def Let_def dest: Math_sqrt_nonneg)

lemma basketWeight_nonneg:
  assumes "basketWeightInPortfolio (basketMetricsOf stocks r corr) r target = Inr (Num b)"
    and "0 \<le> target"
  shows "0 \<le> b \<and> (1 < b \<longrightarrow>
           (\<exists>v. bm_volatility (basketMetricsOf stocks r corr) = Num v \<and> 0 < v \<and> v < target))"
proof (cases "bm_volatility (basketMetricsOf stocks r corr)")
  case NaN
  with assms show ?thesis by (simp add: basketWeightInPortfolio_def)
next
  case (Num v)
  note nn = basketMetricsOf_volatility_nonneg[OF Num]
  show ?thesis
  proof (cases "v = 0")
    case True
    with assms Num show ?thesis
      by (auto simp: basketWeightInPortfolio_def split: if_splits)
  next
    case False
    with nn have pos: "0 < v" by simp
    from assms Num False have b: "b = target / v"
      by (simp add: basketWeightInPortfolio_def)
    from pos assms(2) b have "0 \<le> b" by simp
    moreover have "v < target" if "1 < b"
      using that pos b by (simp add: less_divide_eq)
    ultimately show ?thesis using Num pos by simp
  qed
qed

lemma stockAllocationResults_amounts:
  "a \<in> set (stockAllocationResults stocks ws T bw)
     \<Longrightarrow> \<exists>i < length stocks. sa_amount a = ntimes T (Num (ws ! i))"
  by (auto simp: stockAllocationResults_def)

lemma spec_basketWeights_nonneg:
  "i < length rs \<Longrightarrow> 0 \<le> spec_basketWeights rs ! i"
  using basketWeights_nonneg[OF calculateBasketWeights_spec, of "spec_basketWeights rs ! i" rs]
  by (simp add: spec_basketWeights_length)

text \<open>What a successful allocation of a non-negative amount returns.\<close>

lemma allocation_result_amounts:
  assumes ok: "calculateAllocation t stocks bank target corr = Inr res"
  shows "(\<forall>a\<in>set (res_stocks res). sa_amount a = NaN \<or> nonNegative (sa_amount a))
       \<and> (bm_volatility (basketMetricsOf stocks (interestRate bank) corr) \<noteq> NaN \<longrightarrow>
            (\<forall>a\<in>set (res_stocks res). nonNegative (sa_amount a))
            \<and> ba_amount (res_bankAllocation res) \<noteq> NaN)
       \<and> (isNegative (ba_amount (res_bankAllocation res)) \<longrightarrow> leveraged stocks bank target corr)"
proof -
  note valid = calculateAllocation_valid[OF ok]
  then have t: "0 \<le> t" and target: "0 \<le> target" by (simp_all add: validateInputs_ok)
  show ?thesis
  proof (cases "stocks = []")
    case True
    with ok valid t show ?thesis
      by (auto simp: calculateAllocation_no_stocks split: if_splits)
  next
    case False
    let ?r = "interestRate bank"
    let ?ws = "spec_basketWeights (map (spec_sharpeRatio ?r) stocks)"
    from ok obtain bw where
      bw: "basketWeightInPortfolio (basketMetricsOf stocks ?r corr) ?r target = Inr bw"
      and rs: "res_stocks res = stockAllocationResults stocks ?ws (ntimes (Num t) bw) bw"
      and ba: "ba_amount (res_bankAllocation res) = ntimes (Num t) (nminus (Num 1) bw)"
      by (auto simp: calculateAllocation_stocks[OF valid False] split: sum.splits)
    show ?thesis
    proof (cases bw)
      case NaN
      with bw have "bm_volatility (basketMetricsOf stocks ?r corr) = NaN"
        by (auto simp: basketWeightInPortfolio_def split: number.splits if_splits)
      with NaN rs ba show ?thesis
        by (auto simp: ntimes_def nminus_def dest!: stockAllocationResults_amounts)
    next
      case (Num b)
      note b = basketWeight_nonneg[OF bw[unfolded Num] target]
      have amounts: "nonNegative (sa_amount a)" if "a \<in> set (res_stocks res)" for a
      proof -
        from that rs obtain i where i: "i < length stocks"
          and a: "sa_amount a = ntimes (ntimes (Num t) bw) (Num (?ws ! i))"
          by (auto dest: stockAllocationResults_amounts)
        from i have "0 \<le> ?ws ! i" by (simp add: spec_basketWeights_nonneg)
        with a Num t b show ?thesis
          by (simp add: ntimes_def nonNegative_def)
      qed
      have "leveraged stocks bank target corr"
        if "isNegative (ba_amount (res_bankAllocation res))"
      proof -
        from that ba Num have "t * (1 - b) < 0" by (simp add: ntimes_def nminus_def)
        with t have "1 < b" by (simp add: mult_less_0_iff)
        with b show ?thesis by (auto simp: leveraged_def)
      qed
      with amounts ba Num show ?thesis
        by (auto simp: ntimes_def nminus_def)
    qed
  qed
qed

section \<open>Holdings along a run\<close>

lemma update_values:
  "p \<in> set (AList.update k v al) \<Longrightarrow> p = (k, v) \<or> p \<in> set al"
  by (induction al) (auto split: if_splits)

lemma zeroStocks_values:
  "p \<in> set (zeroStocks stocks h) \<Longrightarrow> snd p = Num 0 \<or> p \<in> set h"
  unfolding zeroStocks_def
proof (induction stocks arbitrary: h)
  case Nil
  then show ?case by simp
next
  case (Cons s stocks)
  from Cons.prems have "p \<in> set (fold (\<lambda>s. AList.update (name s) (Num 0)) stocks
                                   (AList.update (name s) (Num 0) h))" by simp
  from Cons.IH[OF this] show ?case
    using update_values[of p "name s" "Num 0" h] by auto
qed

lemma applyAllocation_values:
  "p \<in> set (applyAllocation allocs h)
     \<Longrightarrow> (\<exists>a\<in>set allocs. snd p = sa_amount a) \<or> p \<in> set h"
  unfolding applyAllocation_def
proof (induction allocs arbitrary: h)
  case Nil
  then show ?case by simp
next
  case (Cons a allocs)
  from Cons.prems have "p \<in> set (fold (\<lambda>sAlloc. AList.update (sa_name sAlloc) (sa_amount sAlloc))
                                   allocs (AList.update (sa_name a) (sa_amount a) h))" by simp
  from Cons.IH[OF this] show ?case
    using update_values[of p "sa_name a" "sa_amount a" h] by auto
qed

lemma growStocks_values:
  assumes "growStocks scenario stocks cur acc tape = Some (grown, tape')"
    and "\<forall>p\<in>set acc. P (snd p)"
    and "\<And>stock rf. P (grownValue scenario cur stock rf)"
  shows "\<forall>p\<in>set grown. P (snd p)"
  using assms(1,2)
proof (induction stocks arbitrary: acc tape)
  case Nil
  then show ?case by simp
next
  case (Cons stock rest)
  from Cons.prems(1) obtain rf tape1 where
    rest: "growStocks scenario rest cur
             (AList.update (name stock) (grownValue scenario cur stock rf) acc) tape1
           = Some (grown, tape')"
    by (auto simp: grownValue_def split: option.splits)
  have "\<forall>p\<in>set (AList.update (name stock) (grownValue scenario cur stock rf) acc). P (snd p)"
  proof
    fix p assume "p \<in> set (AList.update (name stock) (grownValue scenario cur stock rf) acc)"
    from update_values[OF this] Cons.prems(2) assms(3) show "P (snd p)" by auto
  qed
  from Cons.IH[OF rest this] show ?case .
qed

lemma grownValue_zero:
  assumes "\<forall>p\<in>set cur. snd p = Num 0"
  shows "grownValue scenario cur stock rf = Num 0"
proof (cases "map_of cur (name stock)")
  case None
  then show ?thesis by (simp add: grownValue_def ntimes_def)
next
  case (Some v)
  then have "(name stock, v) \<in> set cur" by (rule map_of_SomeD)
  with assms have "v = Num 0" by force
  with Some show ?thesis by (simp add: grownValue_def ntimes_def)
qed

lemma grownValue_nonNegative:
  assumes "\<forall>p\<in>set cur. snd p = NaN \<or> nonNegative (snd p)"
  shows "nonNegative (grownValue scenario cur stock rf)"
proof -
  have r: "0 \<le> 1 + actualMonthlyReturn scenario stock rf"
    using actualMonthlyReturn_floor[of scenario stock rf] by simp
  show ?thesis
  proof (cases "map_of cur (name stock)")
    case None
    then show ?thesis by (simp add: grownValue_def ntimes_def nonNegative_def)
  next
    case (Some v)
    then have "(name stock, v) \<in> set cur" by (rule map_of_SomeD)
    with assms have "v = NaN \<or> nonNegative v" by force
    with Some r show ?thesis
      by (cases v) (auto simp: grownValue_def ntimes_def nonNegative_def)
  qed
qed

lemma clampHoldings_values:
  "p \<in> set (clampHoldings h) \<Longrightarrow> \<exists>q\<in>set h. snd p = Math_max0 (snd q)"
  by (force simp: clampHoldings_def)

lemma Math_max0_cases: "Math_max0 u = NaN \<or> nonNegative (Math_max0 u)"
  by (cases u) (simp_all add: nonNegative_def)

lemma Math_max0_nonNegative: "nonNegative u \<Longrightarrow> Math_max0 u = u"
  by (cases u) (simp_all add: nonNegative_def)

lemma clampHoldings_id:
  assumes "\<forall>p\<in>set h. nonNegative (snd p)"
  shows "clampHoldings h = h"
  using assms by (induction h) (auto simp: clampHoldings_def Math_max0_nonNegative)

lemma sumValues_zero:
  assumes "\<forall>p\<in>set h. snd p = Num 0"
  shows "sumValues h = Num 0"
proof -
  from assms have "map snd h = map Num (map (\<lambda>_. 0) h)" by (induction h) auto
  then have "sumValues h = Num (0 + sum_list (map (\<lambda>_. 0) h))"
    unfolding sumValues_def by (simp only: foldl_nplus_Num)
  then show ?thesis by simp
qed

lemma sumValues_Num:
  assumes "\<forall>p\<in>set h. nonNegative (snd p)"
  shows "\<exists>x. sumValues h = Num x"
proof -
  from assms have "\<exists>xs. map snd h = map Num xs"
  proof (induction h)
    case Nil
    then show ?case by simp
  next
    case (Cons p h)
    then obtain xs where xs: "map snd h = map Num xs" by auto
    from Cons.prems obtain x where "snd p = Num x"
      by (cases "snd p") (auto simp: nonNegative_def)
    with xs have "map snd (p # h) = map Num (x # xs)" by simp
    then show ?case by blast
  qed
  then obtain xs where "map snd h = map Num xs" ..
  then have "sumValues h = Num (0 + sum_list xs)"
    unfolding sumValues_def by (simp only: foldl_nplus_Num)
  then show ?thesis by blast
qed


lemma simulateMonth_Some:
  assumes "simulateMonth dep stocks bank target scenario corr m s tape = Some (tr, tape')"
  shows "\<exists>grown newH newB.
     growStocks scenario stocks (currentStockHoldings s) [] tape = Some (grown, tape')
   \<and> tr_grownStockHoldings tr = grown
   \<and> tr_totalCapitalForReallocation tr
       = nplus (nplus (sumValues grown)
                  (ntimes (currentBankHolding s) (Num (1 + interestRate bank / 12))))
           (Num dep)
   \<and> rebalance stocks bank target corr (currentStockHoldings s) grown
         (tr_totalCapitalForReallocation tr) = (newH, newB)
   \<and> currentStockHoldings (tr_state tr) = clampHoldings newH
   \<and> currentBankHolding (tr_state tr) = newB
   \<and> stockValues (tr_recorded tr) = clampHoldings newH
   \<and> bankValue (tr_recorded tr) = parseFloat_toFixed2 newB
   \<and> totalPortfolioValue (tr_recorded tr)
       = parseFloat_toFixed2 (nplus (sumValues (clampHoldings newH)) newB)"
  using assms
  by (auto simp: simulateMonth_def Let_def split: option.splits prod.splits)

lemma simulateMonths_invariant:
  assumes "simulateMonths dep stocks bank target scenario corr n m s tape = Some trs"
    and "Inv s"
    and "\<And>s m tape tr tape'. Inv s
           \<Longrightarrow> simulateMonth dep stocks bank target scenario corr m s tape = Some (tr, tape')
           \<Longrightarrow> Inv (tr_state tr) \<and> Q tr"
  shows "\<forall>tr\<in>set trs. Q tr"
  using assms(1,2)
proof (induction n arbitrary: m s tape trs)
  case 0
  then show ?case by simp
next
  case (Suc n)
  from Suc.prems(1) obtain tr tape' rest where
    tr: "simulateMonth dep stocks bank target scenario corr m s tape = Some (tr, tape')"
    and rest: "simulateMonths dep stocks bank target scenario corr n (Suc m) (tr_state tr) tape'
                 = Some rest"
    and trs: "trs = tr # rest"
    by (auto split: option.splits)
  from assms(3)[OF Suc.prems(2) tr] have "Inv (tr_state tr)" "Q tr" by simp_all
  with Suc.IH[OF rest] trs show ?case by simp
qed

lemma rebalance_cases:
  assumes "rebalance stocks bank target corr cur grown totalCapital = (newH, newB)"
  shows "(\<exists>t res. totalCapital = Num t \<and> 0 < t
            \<and> calculateAllocation t stocks bank target corr = Inr res
            \<and> newH = applyAllocation (res_stocks res) cur
            \<and> newB = ba_amount (res_bankAllocation res))
       \<or> (\<exists>t e. totalCapital = Num t \<and> 0 < t
            \<and> calculateAllocation t stocks bank target corr = Inl e
            \<and> newH = grown \<and> newB = nminus totalCapital (sumValues grown))
       \<or> (\<not> isPositive totalCapital \<and> newH = zeroStocks stocks cur \<and> newB = totalCapital)"
  using assms
  by (cases totalCapital) (auto simp: rebalance_def split: if_splits sum.splits)

lemma toFixed2_negative: "toFixed2 x < 0 \<Longrightarrow> x < 0"
proof -
  assume neg: "toFixed2 x < 0"
  show "x < 0"
  proof (rule ccontr)
    assume "\<not> x < 0"
    then have x: "0 \<le> x" by simp
    then have "0 \<le> real_of_int \<lfloor>\<bar>x\<bar> * 100 + 1 / 2\<rfloor>" by simp
    with x have "0 \<le> toFixed2 x"
      by (auto simp: toFixed2_def sgn_if)
    with neg show False by simp
  qed
qed

lemma parseFloat_toFixed2_negative:
  "isNegative (parseFloat_toFixed2 v) \<Longrightarrow> isNegative v"
  by (cases v) (auto dest: toFixed2_negative)


text \<open>When the allocation fails, every holding of a stock stays at zero.\<close>

lemma initialState_failing:
  assumes "allocationFails stocks bank target corr"
  shows "\<forall>p\<in>set (currentStockHoldings (initialState init stocks bank target corr)).
           snd p = Num 0"
proof (cases "init > 0")
  case True
  then have "0 \<le> init" by simp
  from allocationFails_iff[OF this] assms obtain e where
    "calculateAllocation init stocks bank target corr = Inl e" by blast
  with True show ?thesis
    by (auto simp: initialState_def Let_def dest!: zeroStocks_values)
next
  case False
  then show ?thesis
    by (auto simp: initialState_def Let_def dest!: zeroStocks_values)
qed

lemma step_failing:
  assumes F: "allocationFails stocks bank target corr"
    and Z: "\<forall>p\<in>set (currentStockHoldings s). snd p = Num 0"
    and step: "simulateMonth dep stocks bank target scenario corr m s tape = Some (tr, tape')"
  shows "(\<forall>p\<in>set (currentStockHoldings (tr_state tr)). snd p = Num 0)
       \<and> (\<forall>t. tr_totalCapitalForReallocation tr = Num t \<and> 0 < t \<longrightarrow>
             currentStockHoldings (tr_state tr) = tr_grownStockHoldings tr
           \<and> currentBankHolding (tr_state tr)
               = nminus (Num t) (sumValues (tr_grownStockHoldings tr))
           \<and> nplus (sumValues (currentStockHoldings (tr_state tr)))
                 (currentBankHolding (tr_state tr)) = Num t)
       \<and> (isNegative (currentBankHolding (tr_state tr)) \<longrightarrow>
             isNegative (tr_totalCapitalForReallocation tr))"
proof -
  from simulateMonth_Some[OF step] obtain grown newH newB where
    g: "growStocks scenario stocks (currentStockHoldings s) [] tape = Some (grown, tape')"
    and tg: "tr_grownStockHoldings tr = grown"
    and rb: "rebalance stocks bank target corr (currentStockHoldings s) grown
               (tr_totalCapitalForReallocation tr) = (newH, newB)"
    and h: "currentStockHoldings (tr_state tr) = clampHoldings newH"
    and b: "currentBankHolding (tr_state tr) = newB"
    by blast
  have gz: "\<forall>p\<in>set grown. snd p = Num 0"
    by (rule growStocks_values[OF g]) (simp_all add: grownValue_zero[OF Z])
  then have gnn: "\<forall>p\<in>set grown. nonNegative (snd p)" by (simp add: nonNegative_def)
  note sg = sumValues_zero[OF gz]
  from rebalance_cases[OF rb] show ?thesis
  proof (elim disjE exE conjE)
    fix t res
    assume "0 < t" "calculateAllocation t stocks bank target corr = Inr res"
    moreover from \<open>0 < t\<close> have "0 \<le> t" by simp
    ultimately show ?thesis using allocationFails_iff[OF \<open>0 \<le> t\<close>, of stocks bank target corr] F
      by simp
  next
    fix t e
    assume t: "tr_totalCapitalForReallocation tr = Num t" "0 < t"
      and n: "newH = grown" "newB = nminus (tr_totalCapitalForReallocation tr) (sumValues grown)"
    from n h clampHoldings_id[OF gnn] have h': "currentStockHoldings (tr_state tr) = grown"
      by simp
    from n b t sg have b': "currentBankHolding (tr_state tr) = Num t"
      by (simp add: nminus_def)
    from h' b' gz sg t tg show ?thesis
      by (simp add: nminus_def nplus_def)
  next
    assume np: "\<not> isPositive (tr_totalCapitalForReallocation tr)"
      and n: "newH = zeroStocks stocks (currentStockHoldings s)"
             "newB = tr_totalCapitalForReallocation tr"
    have "\<forall>p\<in>set newH. snd p = Num 0"
      using n Z by (auto dest!: zeroStocks_values)
    then have "\<forall>p\<in>set (clampHoldings newH). snd p = Num 0"
      by (auto dest!: clampHoldings_values)
    with h b n np show ?thesis
      by (cases "tr_totalCapitalForReallocation tr") auto
  qed
qed

text \<open>When the allocation succeeds, a negative bank holding comes from leverage or from a
  negative capital of the month.\<close>

lemma step_succeeding:
  assumes S: "\<not> allocationFails stocks bank target corr"
    and step: "simulateMonth dep stocks bank target scenario corr m s tape = Some (tr, tape')"
    and neg: "isNegative (currentBankHolding (tr_state tr))"
  shows "leveraged stocks bank target corr \<or> isNegative (tr_totalCapitalForReallocation tr)"
proof -
  from simulateMonth_Some[OF step] obtain grown newH newB where
    rb: "rebalance stocks bank target corr (currentStockHoldings s) grown
               (tr_totalCapitalForReallocation tr) = (newH, newB)"
    and b: "currentBankHolding (tr_state tr) = newB"
    by blast
  from rebalance_cases[OF rb] show ?thesis
  proof (elim disjE exE conjE)
    fix t res
    assume "calculateAllocation t stocks bank target corr = Inr res"
      "newB = ba_amount (res_bankAllocation res)"
    with allocation_result_amounts[of t stocks bank target corr res] neg b
    show ?thesis by simp
  next
    fix t e
    assume "0 < t" "calculateAllocation t stocks bank target corr = Inl e"
    moreover from \<open>0 < t\<close> have "0 \<le> t" by simp
    ultimately show ?thesis using allocationFails_iff[OF \<open>0 \<le> t\<close>, of stocks bank target corr] S
      by blast
  next
    assume "newB = tr_totalCapitalForReallocation tr"
    with neg b show ?thesis by simp
  qed
qed

lemma initialState_bank_negative:
  assumes "isNegative (currentBankHolding (initialState init stocks bank target corr))"
  shows "leveraged stocks bank target corr"
proof (cases "init > 0")
  case True
  show ?thesis
  proof (cases "calculateAllocation init stocks bank target corr")
    case (Inl e)
    with True assms show ?thesis by (simp add: initialState_def Let_def)
  next
    case (Inr res)
    with True assms allocation_result_amounts[OF Inr] show ?thesis
      by (simp add: initialState_def Let_def)
  qed
next
  case False
  with assms show ?thesis by (simp add: initialState_def Let_def)
qed

text \<open>When the basket volatility is not \<open>NaN\<close>, every holding is a non-negative number.\<close>

lemma initialState_finite:
  assumes "bm_volatility (basketMetricsOf stocks (interestRate bank) corr) \<noteq> NaN"
  shows "(\<forall>p\<in>set (currentStockHoldings (initialState init stocks bank target corr)).
            nonNegative (snd p))
       \<and> currentBankHolding (initialState init stocks bank target corr) \<noteq> NaN"
proof -
  have z: "\<forall>p\<in>set (zeroStocks stocks []). nonNegative (snd p)"
    by (auto simp: nonNegative_def dest!: zeroStocks_values)
  have zz: "\<forall>p\<in>set (zeroStocks stocks (zeroStocks stocks [])). nonNegative (snd p)"
    by (auto simp: nonNegative_def dest!: zeroStocks_values)
  show ?thesis
  proof (cases "calculateAllocation init stocks bank target corr")
    case (Inl e)
    with z zz show ?thesis by (simp add: initialState_def Let_def)
  next
    case (Inr res)
    note a = allocation_result_amounts[OF Inr]
    have "\<forall>p\<in>set (applyAllocation (res_stocks res) (zeroStocks stocks [])). nonNegative (snd p)"
    proof
      fix p assume "p \<in> set (applyAllocation (res_stocks res) (zeroStocks stocks []))"
      from applyAllocation_values[OF this] a assms z show "nonNegative (snd p)" by auto
    qed
    with Inr z a assms show ?thesis by (simp add: initialState_def Let_def)
  qed
qed

lemma step_finite:
  assumes noNaN: "bm_volatility (basketMetricsOf stocks (interestRate bank) corr) \<noteq> NaN"
    and I: "(\<forall>p\<in>set (currentStockHoldings s). nonNegative (snd p))
             \<and> currentBankHolding s \<noteq> NaN"
    and step: "simulateMonth dep stocks bank target scenario corr m s tape = Some (tr, tape')"
  shows "((\<forall>p\<in>set (currentStockHoldings (tr_state tr)). nonNegative (snd p))
             \<and> currentBankHolding (tr_state tr) \<noteq> NaN)
       \<and> (\<forall>p\<in>set (stockValues (tr_recorded tr)). nonNegative (snd p))"
proof -
  from simulateMonth_Some[OF step] obtain grown newH newB where
    g: "growStocks scenario stocks (currentStockHoldings s) [] tape = Some (grown, tape')"
    and tt: "tr_totalCapitalForReallocation tr
       = nplus (nplus (sumValues grown)
                  (ntimes (currentBankHolding s) (Num (1 + interestRate bank / 12))))
           (Num dep)"
    and rb: "rebalance stocks bank target corr (currentStockHoldings s) grown
               (tr_totalCapitalForReallocation tr) = (newH, newB)"
    and h: "currentStockHoldings (tr_state tr) = clampHoldings newH"
    and b: "currentBankHolding (tr_state tr) = newB"
    and r: "stockValues (tr_recorded tr) = clampHoldings newH"
    by blast
  from I have cur: "\<forall>p\<in>set (currentStockHoldings s). snd p = NaN \<or> nonNegative (snd p)"
    by simp
  have gnn: "\<forall>p\<in>set grown. nonNegative (snd p)"
    by (rule growStocks_values[OF g]) (simp_all add: grownValue_nonNegative[OF cur])
  from sumValues_Num[OF gnn] obtain x where x: "sumValues grown = Num x" ..
  from I obtain y where y: "currentBankHolding s = Num y"
    by (cases "currentBankHolding s") auto
  from tt x y obtain t where t: "tr_totalCapitalForReallocation tr = Num t"
    by (simp add: nplus_def ntimes_def)
  have new: "(\<forall>p\<in>set newH. nonNegative (snd p)) \<and> newB \<noteq> NaN"
    using rebalance_cases[OF rb]
  proof (elim disjE exE conjE)
    fix t' res
    assume ok: "calculateAllocation t' stocks bank target corr = Inr res"
      and n: "newH = applyAllocation (res_stocks res) (currentStockHoldings s)"
             "newB = ba_amount (res_bankAllocation res)"
    note a = allocation_result_amounts[OF ok]
    have "\<forall>p\<in>set newH. nonNegative (snd p)"
    proof
      fix p assume "p \<in> set newH"
      with n have "p \<in> set (applyAllocation (res_stocks res) (currentStockHoldings s))" by simp
      from applyAllocation_values[OF this] a noNaN I show "nonNegative (snd p)" by auto
    qed
    with n a noNaN show ?thesis by simp
  next
    fix t' e
    assume "newH = grown" "newB = nminus (tr_totalCapitalForReallocation tr) (sumValues grown)"
    with gnn t x show ?thesis by (simp add: nminus_def)
  next
    assume n: "newH = zeroStocks stocks (currentStockHoldings s)"
              "newB = tr_totalCapitalForReallocation tr"
    have "\<forall>p\<in>set newH. nonNegative (snd p)"
    proof
      fix p assume "p \<in> set newH"
      with n have "p \<in> set (zeroStocks stocks (currentStockHoldings s))" by simp
      from zeroStocks_values[OF this] I show "nonNegative (snd p)"
        by (auto simp: nonNegative_def)
    qed
    with n t show ?thesis by simp
  qed
  then have "clampHoldings newH = newH" by (simp add: clampHoldings_id)
  with new h b r show ?thesis by simp
qed

section \<open>Runs with one stock\<close>

lemma alloc_stockA:
  assumes "0 \<le> t" "0 \<le> target"
  shows "\<exists>res. calculateAllocation t [stockA] bank3 target (1/2) = Inr res
     \<and> res_stocks res = [\<lparr> sa_name = ''A'', sa_amount = Num (t * (target * 5)),
                            sa_weightInBasket = 100,
                            sa_weightInTotal = Num (target * 5 * 100) \<rparr>]
     \<and> ba_amount (res_bankAllocation res) = Num (t * (1 - target * 5))"
proof -
  have valid: "validateInputs t [stockA] bank3 target (1/2) = Inr ()"
    using assms
    by (simp add: validateInputs_def stockA_def bank3_def MIN_INTEREST_RATE_def MAX_INTEREST_RATE_def)
  have bw: "basketWeightInPortfolio (basketMetricsOf [stockA] (interestRate bank3) (1/2))
              (interestRate bank3) target = Inr (Num (target * 5))"
    unfolding basketWeightInPortfolio_def metrics1 by simp
  show ?thesis
    apply (subst calculateAllocation_stocks[OF valid])
     apply simp
    apply (simp only: bw sum.case)
    apply (simp only: weights1 metrics1)
    apply (simp add: stockAllocationResults_def ntimes_def nminus_def)
    apply (simp add: stockA_def)
    done
qed

lemma init_stockA:
  assumes "0 < init" "0 \<le> target"
  shows "initialState init [stockA] bank3 target (1/2)
         = \<lparr> currentStockHoldings = [(''A'', Num (init * (target * 5)))],
             currentBankHolding = Num (init * (1 - target * 5)),
             cumulativeCapitalInvested = init \<rparr>"
proof -
  from assms have "0 \<le> init" by simp
  from alloc_stockA[OF this assms(2)] obtain res where
    "calculateAllocation init [stockA] bank3 target (1/2) = Inr res"
    "res_stocks res = [\<lparr> sa_name = ''A'', sa_amount = Num (init * (target * 5)),
                            sa_weightInBasket = 100,
                            sa_weightInTotal = Num (target * 5 * 100) \<rparr>]"
    "ba_amount (res_bankAllocation res) = Num (init * (1 - target * 5))"
    by blast
  with assms show ?thesis
    by (simp add: initialState_def Let_def zeroStocks_def applyAllocation_def stockA_def)
qed

lemma trace_leveraged:
  "simulateTrace 1000 0 [stockA] bank3 (2/5) 0 AVERAGE (1/2) [] =
     Some (Inr (\<lparr> month = 0, stockValues = [(''A'', Num 2000)], bankValue = Num (- 1000),
                  totalPortfolioValue = Num 1000, totalCapitalInvested = 1000 \<rparr>, []))"
  by (simp add: simulateTrace_def Let_def init_stockA recordMonth0_def sumValues_def nplus_def)

lemma run_leveraged:
  "simulateInvestmentStrategy 1000 0 [stockA] bank3 (2/5) 0 AVERAGE (1/2) [] =
     Some (Inr [\<lparr> month = 0, stockValues = [(''A'', Num 2000)], bankValue = Num (- 1000),
                  totalPortfolioValue = Num 1000, totalCapitalInvested = 1000 \<rparr>])"
  by (simp add: simulateInvestmentStrategy_def trace_leveraged)

lemma month_stockA:
  "simulateMonth 0 [stockA] bank3 (1/10) AVERAGE (1/2) m
     \<lparr> currentStockHoldings = [(''A'', Num 500)], currentBankHolding = Num 500,
       cumulativeCapitalInvested = 1000 \<rparr> [0, 1/2, 1/4]
   = Some (\<lparr> tr_grownStockHoldings = [(''A'', Num (3025/6))],
              tr_totalCapitalForReallocation = Num (12065/12),
              tr_state = \<lparr> currentStockHoldings = [(''A'', Num (12065/24))],
                           currentBankHolding = Num (12065/24),
                           cumulativeCapitalInvested = 1000 \<rparr>,
              tr_recorded = \<lparr> month = m, stockValues = [(''A'', Num (12065/24))],
                              bankValue = Num (50271/100),
                              totalPortfolioValue = Num (50271/50),
                              totalCapitalInvested = 1000 \<rparr> \<rparr>, [])"
proof -
  have g: "growStocks AVERAGE [stockA] [(''A'', Num 500)] [] [0, 1/2, 1/4]
             = Some ([(''A'', Num (3025/6))], [])"
    using grow_example by simp
  have r: "interestRate bank3 / 12 = 1/400" by (simp add: bank3_def)
  have t: "(0::real) \<le> 12065/12" "(0::real) \<le> 1/10" by simp_all
  from alloc_stockA[OF t] obtain res where
    res: "calculateAllocation (12065/12) [stockA] bank3 (1/10) (1/2) = Inr res"
    "res_stocks res = [\<lparr> sa_name = ''A'', sa_amount = Num (12065/12 * (1/10 * 5)),
                            sa_weightInBasket = 100,
                            sa_weightInTotal = Num (1/10 * 5 * 100) \<rparr>]"
    "ba_amount (res_bankAllocation res) = Num (12065/12 * (1 - 1/10 * 5))"
    by blast
  show ?thesis
    using res
    apply (simp only: simulateMonth_def SimState.select_convs g option.case prod.case)
    apply (simp add: Let_def r sumValues_def nplus_def ntimes_def rebalance_def
        applyAllocation_def clampHoldings_def toFixed2_def)
    done
qed

lemma trace_stockA:
  "simulateTrace 1000 0 [stockA] bank3 (1/10) 1 AVERAGE (1/2) [0, 1/2, 1/4] =
     Some (Inr (\<lparr> month = 0, stockValues = [(''A'', Num 500)], bankValue = Num 500,
                  totalPortfolioValue = Num 1000, totalCapitalInvested = 1000 \<rparr>,
                [\<lparr> tr_grownStockHoldings = [(''A'', Num (3025/6))],
                   tr_totalCapitalForReallocation = Num (12065/12),
                   tr_state = \<lparr> currentStockHoldings = [(''A'', Num (12065/24))],
                                currentBankHolding = Num (12065/24),
                                cumulativeCapitalInvested = 1000 \<rparr>,
                   tr_recorded = \<lparr> month = 1, stockValues = [(''A'', Num (12065/24))],
                                   bankValue = Num (50271/100),
                                   totalPortfolioValue = Num (50271/50),
                                   totalCapitalInvested = 1000 \<rparr> \<rparr>]))"
  by (simp add: simulateTrace_def Let_def init_stockA recordMonth0_def sumValues_def nplus_def
      month_stockA)

lemma run_stockA:
  "simulateInvestmentStrategy 1000 0 [stockA] bank3 (1/10) 1 AVERAGE (1/2) [0, 1/2, 1/4] =
     Some (Inr [\<lparr> month = 0, stockValues = [(''A'', Num 500)], bankValue = Num 500,
                  totalPortfolioValue = Num 1000, totalCapitalInvested = 1000 \<rparr>,
                \<lparr> month = 1, stockValues = [(''A'', Num (12065/24))],
                  bankValue = Num (50271/100), totalPortfolioValue = Num (50271/50),
                  totalCapitalInvested = 1000 \<rparr>])"
  by (simp add: simulateInvestmentStrategy_def trace_stockA)


lemma alloc_bankZero:
  "calculateAllocation t [stockA] bankZero (1/10) (1/2)
     = (if t < 0 then Inl NegativeTotalAmount else Inl (InterestRateOutOfRange 0))"
  by (simp add: calculateAllocation_def validateInputs_def stockA_def bankZero_def
      MIN_INTEREST_RATE_def)

lemma grow_zero:
  "growStocks AVERAGE [stockA] [(''A'', Num 0)] [] [0, 1/2, 1/4] = Some ([(''A'', Num 0)], [])"
  by (simp add: normal_example ntimes_def) (simp add: stockA_def)

lemma init_fallback:
  "initialState 1000 [stockA] bankZero (1/10) (1/2)
     = \<lparr> currentStockHoldings = [(''A'', Num 0)], currentBankHolding = Num 1000,
         cumulativeCapitalInvested = 1000 \<rparr>"
  by (simp add: initialState_def Let_def alloc_bankZero zeroStocks_def) (simp add: stockA_def)

lemma month_fallback:
  "simulateMonth 100 [stockA] bankZero (1/10) AVERAGE (1/2) m
     \<lparr> currentStockHoldings = [(''A'', Num 0)], currentBankHolding = Num 1000,
       cumulativeCapitalInvested = 1000 \<rparr> [0, 1/2, 1/4]
   = Some (\<lparr> tr_grownStockHoldings = [(''A'', Num 0)],
              tr_totalCapitalForReallocation = Num 1100,
              tr_state = \<lparr> currentStockHoldings = [(''A'', Num 0)],
                           currentBankHolding = Num 1100,
                           cumulativeCapitalInvested = 1100 \<rparr>,
              tr_recorded = \<lparr> month = m, stockValues = [(''A'', Num 0)],
                              bankValue = Num 1100, totalPortfolioValue = Num 1100,
                              totalCapitalInvested = 1100 \<rparr> \<rparr>, [])"
proof -
  have r: "interestRate bankZero / 12 = 0" by (simp add: bankZero_def)
  show ?thesis
    apply (simp only: simulateMonth_def SimState.select_convs grow_zero option.case prod.case)
    apply (simp add: Let_def sumValues_def nplus_def ntimes_def nminus_def rebalance_def
        alloc_bankZero clampHoldings_def toFixed2_def r)
    done
qed

lemma trace_fallback:
  "simulateTrace 1000 100 [stockA] bankZero (1/10) 1 AVERAGE (1/2) [0, 1/2, 1/4] =
     Some (Inr (\<lparr> month = 0, stockValues = [(''A'', Num 0)], bankValue = Num 1000,
                  totalPortfolioValue = Num 1000, totalCapitalInvested = 1000 \<rparr>,
                [\<lparr> tr_grownStockHoldings = [(''A'', Num 0)],
                   tr_totalCapitalForReallocation = Num 1100,
                   tr_state = \<lparr> currentStockHoldings = [(''A'', Num 0)],
                                currentBankHolding = Num 1100,
                                cumulativeCapitalInvested = 1100 \<rparr>,
                   tr_recorded = \<lparr> month = 1, stockValues = [(''A'', Num 0)],
                                   bankValue = Num 1100, totalPortfolioValue = Num 1100,
                                   totalCapitalInvested = 1100 \<rparr> \<rparr>]))"
  by (simp add: simulateTrace_def Let_def init_fallback recordMonth0_def sumValues_def nplus_def
      month_fallback)

lemma toFixed2_int100: "toFixed2 (real_of_int k / 100) = real_of_int k / 100"
proof (cases "\<bar>real_of_int k / 100\<bar> \<ge> 10 ^ 21")
  case True
  then show ?thesis by (simp add: toFixed2_def)
next
  case False
  have "\<bar>real_of_int k / 100\<bar> * 100 + 1 / 2 = real_of_int \<bar>k\<bar> + 1 / 2" by simp
  then have "\<lfloor>\<bar>real_of_int k / 100\<bar> * 100 + 1 / 2\<rfloor> = \<bar>k\<bar>"
    by (simp only:) linarith
  moreover have "sgn (real_of_int k / 100) * real_of_int \<bar>k\<bar> = real_of_int k"
    by (simp add: sgn_if)
  ultimately show ?thesis using False
    by (simp add: toFixed2_def)
qed

lemma toFixed2_idem: "toFixed2 (toFixed2 x) = toFixed2 x"
proof (cases "\<bar>x\<bar> \<ge> 10 ^ 21")
  case True
  then show ?thesis by (simp add: toFixed2_def)
next
  case False
  obtain j :: int where j: "sgn x = real_of_int j"
    by (cases "x < 0"; cases "x = 0") (auto simp: sgn_if intro: that[of 0] that[of 1] that[of "-1"])
  from False have "toFixed2 x = real_of_int (j * \<lfloor>\<bar>x\<bar> * 100 + 1 / 2\<rfloor>) / 100"
    by (simp add: toFixed2_def j)
  then show ?thesis by (simp only: toFixed2_int100)
qed

lemma parseFloat_toFixed2_idem: "parseFloat_toFixed2 (parseFloat_toFixed2 v) = parseFloat_toFixed2 v"
  by (cases v) (simp_all add: toFixed2_idem)

text \<open>
  The fallback of one month, from any state whose holdings are not negative: the holdings
  after the month are the grown values and the bank holding is what is left of the capital.
\<close>

lemma step_fallback:
  assumes step: "simulateMonth dep stocks bank target scenario corr m s tape = Some (tr, tape')"
    and W: "\<forall>p\<in>set (currentStockHoldings s). snd p = NaN \<or> nonNegative (snd p)"
    and t: "tr_totalCapitalForReallocation tr = Num t" "0 < t"
    and fails: "calculateAllocation t stocks bank target corr = Inl e"
  shows "growStocks scenario stocks (currentStockHoldings s) [] tape
           = Some (tr_grownStockHoldings tr, tape')
       \<and> tr_totalCapitalForReallocation tr
           = nplus (nplus (sumValues (tr_grownStockHoldings tr))
                      (ntimes (currentBankHolding s) (Num (1 + interestRate bank / 12))))
               (Num dep)
       \<and> currentStockHoldings (tr_state tr) = tr_grownStockHoldings tr
       \<and> stockValues (tr_recorded tr) = tr_grownStockHoldings tr
       \<and> (\<exists>g. sumValues (tr_grownStockHoldings tr) = Num g
              \<and> currentBankHolding (tr_state tr) = Num (t - g))
       \<and> currentBankHolding (tr_state tr)
           = nminus (Num t) (sumValues (tr_grownStockHoldings tr))
       \<and> nplus (sumValues (currentStockHoldings (tr_state tr)))
             (currentBankHolding (tr_state tr)) = Num t"
proof -
  from simulateMonth_Some[OF step] obtain grown newH newB where
    g: "growStocks scenario stocks (currentStockHoldings s) [] tape = Some (grown, tape')"
    and tg: "tr_grownStockHoldings tr = grown"
    and tt: "tr_totalCapitalForReallocation tr
       = nplus (nplus (sumValues grown)
                  (ntimes (currentBankHolding s) (Num (1 + interestRate bank / 12))))
           (Num dep)"
    and rb: "rebalance stocks bank target corr (currentStockHoldings s) grown
               (tr_totalCapitalForReallocation tr) = (newH, newB)"
    and h: "currentStockHoldings (tr_state tr) = clampHoldings newH"
    and b: "currentBankHolding (tr_state tr) = newB"
    and r: "stockValues (tr_recorded tr) = clampHoldings newH"
    by blast
  have gnn: "\<forall>p\<in>set grown. nonNegative (snd p)"
    by (rule growStocks_values[OF g]) (simp_all add: grownValue_nonNegative[OF W])
  from sumValues_Num[OF gnn] obtain x where x: "sumValues grown = Num x" ..
  from rb t fails have n: "newH = grown" "newB = nminus (Num t) (sumValues grown)"
    by (auto simp: rebalance_def)
  from n h r clampHoldings_id[OF gnn] have h': "currentStockHoldings (tr_state tr) = grown"
    "stockValues (tr_recorded tr) = grown" by simp_all
  from n b x have b': "currentBankHolding (tr_state tr) = Num (t - x)"
    by (simp add: nminus_def)
  from g tg tt h' b' x show ?thesis
    by (simp add: nminus_def nplus_def)
qed

text \<open>
  Every month of a run is a step of \<open>simulateMonth\<close> from a state whose holdings are
  \<open>NaN\<close> or not negative.
\<close>

lemma initialState_holdings:
  "\<forall>p\<in>set (currentStockHoldings (initialState init stocks bank target corr)).
     snd p = NaN \<or> nonNegative (snd p)"
proof -
  have z: "\<forall>p\<in>set (zeroStocks stocks []). snd p = NaN \<or> nonNegative (snd p)"
    by (auto simp: nonNegative_def dest!: zeroStocks_values)
  have zz: "\<forall>p\<in>set (zeroStocks stocks (zeroStocks stocks [])). snd p = NaN \<or> nonNegative (snd p)"
    by (auto simp: nonNegative_def dest!: zeroStocks_values)
  show ?thesis
  proof (cases "calculateAllocation init stocks bank target corr")
    case (Inl e)
    with z zz show ?thesis by (simp add: initialState_def Let_def)
  next
    case (Inr res)
    note a = allocation_result_amounts[OF Inr]
    have "\<forall>p\<in>set (applyAllocation (res_stocks res) (zeroStocks stocks [])).
             snd p = NaN \<or> nonNegative (snd p)"
    proof
      fix p assume "p \<in> set (applyAllocation (res_stocks res) (zeroStocks stocks []))"
      from applyAllocation_values[OF this] a z show "snd p = NaN \<or> nonNegative (snd p)" by auto
    qed
    with Inr z show ?thesis by (simp add: initialState_def Let_def)
  qed
qed

lemma step_holdings:
  assumes "simulateMonth dep stocks bank target scenario corr m s tape = Some (tr, tape')"
  shows "\<forall>p\<in>set (currentStockHoldings (tr_state tr)). snd p = NaN \<or> nonNegative (snd p)"
proof
  fix p assume p: "p \<in> set (currentStockHoldings (tr_state tr))"
  from simulateMonth_Some[OF assms] obtain newH where
    "currentStockHoldings (tr_state tr) = clampHoldings newH" by blast
  with p have "p \<in> set (clampHoldings newH)" by simp
  from clampHoldings_values[OF this] obtain q :: "string \<times> number"
    where "q \<in> set newH" "snd p = Math_max0 (snd q)" by blast
  with Math_max0_cases[of "snd q"] show "snd p = NaN \<or> nonNegative (snd p)" by simp
qed

lemma simulateMonths_steps:
  assumes months: "simulateMonths dep stocks bank target scenario corr n m s tape = Some trs"
    and W: "\<forall>p\<in>set (currentStockHoldings s). snd p = NaN \<or> nonNegative (snd p)"
  shows "\<forall>tr\<in>set trs. \<exists>s1 m1 tape1 tape2.
           simulateMonth dep stocks bank target scenario corr m1 s1 tape1 = Some (tr, tape2)
         \<and> (\<forall>p\<in>set (currentStockHoldings s1). snd p = NaN \<or> nonNegative (snd p))"
proof (rule simulateMonths_invariant[OF months,
      where Inv = "\<lambda>s. \<forall>p\<in>set (currentStockHoldings s). snd p = NaN \<or> nonNegative (snd p)"])
  show "\<forall>p\<in>set (currentStockHoldings s). snd p = NaN \<or> nonNegative (snd p)" by (rule W)
next
  fix s1 m1 tape1 tr tape2
  assume W1: "\<forall>p\<in>set (currentStockHoldings s1). snd p = NaN \<or> nonNegative (snd p)"
    and step: "simulateMonth dep stocks bank target scenario corr m1 s1 tape1 = Some (tr, tape2)"
  from step_holdings[OF step] W1 step
  show "(\<forall>p\<in>set (currentStockHoldings (tr_state tr)). snd p = NaN \<or> nonNegative (snd p))
      \<and> (\<exists>s1 m1 tape1 tape2.
           simulateMonth dep stocks bank target scenario corr m1 s1 tape1 = Some (tr, tape2)
         \<and> (\<forall>p\<in>set (currentStockHoldings s1). snd p = NaN \<or> nonNegative (snd p)))"
    by blast
qed

lemma month_fallback_holding:
  "simulateMonth 100 [stockA] bankZero (1/10) AVERAGE (1/2) m
     \<lparr> currentStockHoldings = [(''A'', Num 500)], currentBankHolding = Num 500,
       cumulativeCapitalInvested = 1000 \<rparr> [0, 1/2, 1/4]
   = Some (\<lparr> tr_grownStockHoldings = [(''A'', Num (3025/6))],
              tr_totalCapitalForReallocation = Num (6625/6),
              tr_state = \<lparr> currentStockHoldings = [(''A'', Num (3025/6))],
                           currentBankHolding = Num 600,
                           cumulativeCapitalInvested = 1100 \<rparr>,
              tr_recorded = \<lparr> month = m, stockValues = [(''A'', Num (3025/6))],
                              bankValue = Num 600, totalPortfolioValue = Num (110417/100),
                              totalCapitalInvested = 1100 \<rparr> \<rparr>, [])"
proof -
  have g: "growStocks AVERAGE [stockA] [(''A'', Num 500)] [] [0, 1/2, 1/4]
             = Some ([(''A'', Num (3025/6))], [])"
    using grow_example by simp
  have r: "interestRate bankZero / 12 = 0" by (simp add: bankZero_def)
  show ?thesis
    apply (simp only: simulateMonth_def SimState.select_convs g option.case prod.case)
    apply (simp add: Let_def sumValues_def nplus_def ntimes_def nminus_def rebalance_def
        alloc_bankZero clampHoldings_def toFixed2_def r)
    done
qed

text \<open>
  C8. A month of the simulation, from any state whose holdings are not negative: when the
  capital for reallocation is positive and the allocation call fails, the state after the
  month holds each stock at the value to which the growth loop has grown it, the bank holding
  is the capital minus the sum of the grown values, and the holdings sum to the capital.
  Every month of a run is such a step. The run goes on: the trace has one entry for every
  month, and a valid call with enough random draws returns a history of
  \<open>durationInMonths + 1\<close> states.
\<close>

theorem allocation_failure_fallback:
  "(simulateMonth monthlyDeposit stocks bankAccount target scenario correlation m s tape1
      = Some (tr, tape2)
    \<and> (\<forall>p\<in>set (currentStockHoldings s). snd p = NaN \<or> nonNegative (snd p))
    \<and> tr_totalCapitalForReallocation tr = Num t \<and> 0 < t
    \<and> calculateAllocation t stocks bankAccount target correlation = Inl e
    \<longrightarrow> growStocks scenario stocks (currentStockHoldings s) [] tape1
          = Some (tr_grownStockHoldings tr, tape2)
      \<and> tr_totalCapitalForReallocation tr
          = nplus (nplus (sumValues (tr_grownStockHoldings tr))
                     (ntimes (currentBankHolding s) (Num (1 + interestRate bankAccount / 12))))
              (Num monthlyDeposit)
      \<and> currentStockHoldings (tr_state tr) = tr_grownStockHoldings tr
      \<and> stockValues (tr_recorded tr) = tr_grownStockHoldings tr
      \<and> (\<exists>g. sumValues (tr_grownStockHoldings tr) = Num g
             \<and> currentBankHolding (tr_state tr) = Num (t - g))
      \<and> currentBankHolding (tr_state tr)
          = nminus (Num t) (sumValues (tr_grownStockHoldings tr))
      \<and> nplus (sumValues (currentStockHoldings (tr_state tr)))
            (currentBankHolding (tr_state tr)) = Num t)
   \<and> (0 \<le> initialInvestment \<and> 0 \<le> monthlyDeposit \<and> 0 \<le> durationInMonths
      \<and> real_of_int \<lfloor>durationInMonths\<rfloor> = durationInMonths
      \<and> (stocks = [] \<longrightarrow> target = 0)
      \<and> 2 * length stocks * nat \<lfloor>durationInMonths\<rfloor> \<le> nonZeroDraws tape
    \<longrightarrow> (\<exists>history. simulateInvestmentStrategy initialInvestment monthlyDeposit stocks
                      bankAccount target durationInMonths scenario correlation tape
                    = Some (Inr history)
                  \<and> length history = nat \<lfloor>durationInMonths\<rfloor> + 1))
   \<and> (simulateTrace initialInvestment monthlyDeposit stocks bankAccount target durationInMonths
         scenario correlation tape = Some (Inr (state0, trs))
    \<longrightarrow> simulateInvestmentStrategy initialInvestment monthlyDeposit stocks bankAccount target
          durationInMonths scenario correlation tape
        = Some (Inr (state0 # map tr_recorded trs))
      \<and> length trs = nat \<lfloor>durationInMonths\<rfloor>
      \<and> (\<forall>tr\<in>set trs. \<exists>s1 m1 tapeA tapeB.
            simulateMonth monthlyDeposit stocks bankAccount target scenario correlation
              m1 s1 tapeA = Some (tr, tapeB)
            \<and> (\<forall>p\<in>set (currentStockHoldings s1). snd p = NaN \<or> nonNegative (snd p)))
      \<and> (\<forall>tr\<in>set trs. \<forall>t e.
            tr_totalCapitalForReallocation tr = Num t \<and> 0 < t
            \<and> calculateAllocation t stocks bankAccount target correlation = Inl e
          \<longrightarrow> currentStockHoldings (tr_state tr) = tr_grownStockHoldings tr
            \<and> stockValues (tr_recorded tr) = tr_grownStockHoldings tr
            \<and> currentBankHolding (tr_state tr)
                = nminus (Num t) (sumValues (tr_grownStockHoldings tr))
            \<and> nplus (sumValues (currentStockHoldings (tr_state tr)))
                  (currentBankHolding (tr_state tr)) = Num t))"
proof (intro conjI)
  show "simulateMonth monthlyDeposit stocks bankAccount target scenario correlation m s tape1
      = Some (tr, tape2)
    \<and> (\<forall>p\<in>set (currentStockHoldings s). snd p = NaN \<or> nonNegative (snd p))
    \<and> tr_totalCapitalForReallocation tr = Num t \<and> 0 < t
    \<and> calculateAllocation t stocks bankAccount target correlation = Inl e
    \<longrightarrow> growStocks scenario stocks (currentStockHoldings s) [] tape1
          = Some (tr_grownStockHoldings tr, tape2)
      \<and> tr_totalCapitalForReallocation tr
          = nplus (nplus (sumValues (tr_grownStockHoldings tr))
                     (ntimes (currentBankHolding s) (Num (1 + interestRate bankAccount / 12))))
              (Num monthlyDeposit)
      \<and> currentStockHoldings (tr_state tr) = tr_grownStockHoldings tr
      \<and> stockValues (tr_recorded tr) = tr_grownStockHoldings tr
      \<and> (\<exists>g. sumValues (tr_grownStockHoldings tr) = Num g
             \<and> currentBankHolding (tr_state tr) = Num (t - g))
      \<and> currentBankHolding (tr_state tr)
          = nminus (Num t) (sumValues (tr_grownStockHoldings tr))
      \<and> nplus (sumValues (currentStockHoldings (tr_state tr)))
            (currentBankHolding (tr_state tr)) = Num t"
  proof
    assume h: "simulateMonth monthlyDeposit stocks bankAccount target scenario correlation m s
        tape1 = Some (tr, tape2)
      \<and> (\<forall>p\<in>set (currentStockHoldings s). snd p = NaN \<or> nonNegative (snd p))
      \<and> tr_totalCapitalForReallocation tr = Num t \<and> 0 < t
      \<and> calculateAllocation t stocks bankAccount target correlation = Inl e"
    then have step: "simulateMonth monthlyDeposit stocks bankAccount target scenario correlation
        m s tape1 = Some (tr, tape2)"
      and W: "\<forall>p\<in>set (currentStockHoldings s). snd p = NaN \<or> nonNegative (snd p)"
      and t: "tr_totalCapitalForReallocation tr = Num t" "0 < t"
      and fails: "calculateAllocation t stocks bankAccount target correlation = Inl e"
      by simp_all
    show "growStocks scenario stocks (currentStockHoldings s) [] tape1
          = Some (tr_grownStockHoldings tr, tape2)
      \<and> tr_totalCapitalForReallocation tr
          = nplus (nplus (sumValues (tr_grownStockHoldings tr))
                     (ntimes (currentBankHolding s) (Num (1 + interestRate bankAccount / 12))))
              (Num monthlyDeposit)
      \<and> currentStockHoldings (tr_state tr) = tr_grownStockHoldings tr
      \<and> stockValues (tr_recorded tr) = tr_grownStockHoldings tr
      \<and> (\<exists>g. sumValues (tr_grownStockHoldings tr) = Num g
             \<and> currentBankHolding (tr_state tr) = Num (t - g))
      \<and> currentBankHolding (tr_state tr)
          = nminus (Num t) (sumValues (tr_grownStockHoldings tr))
      \<and> nplus (sumValues (currentStockHoldings (tr_state tr)))
            (currentBankHolding (tr_state tr)) = Num t"
      by (rule step_fallback[OF step W t fails])
  qed
next
  show "0 \<le> initialInvestment \<and> 0 \<le> monthlyDeposit \<and> 0 \<le> durationInMonths
      \<and> real_of_int \<lfloor>durationInMonths\<rfloor> = durationInMonths
      \<and> (stocks = [] \<longrightarrow> target = 0)
      \<and> 2 * length stocks * nat \<lfloor>durationInMonths\<rfloor> \<le> nonZeroDraws tape
    \<longrightarrow> (\<exists>history. simulateInvestmentStrategy initialInvestment monthlyDeposit stocks
                      bankAccount target durationInMonths scenario correlation tape
                    = Some (Inr history)
                  \<and> length history = nat \<lfloor>durationInMonths\<rfloor> + 1)"
  proof
    assume v: "0 \<le> initialInvestment \<and> 0 \<le> monthlyDeposit \<and> 0 \<le> durationInMonths
      \<and> real_of_int \<lfloor>durationInMonths\<rfloor> = durationInMonths
      \<and> (stocks = [] \<longrightarrow> target = 0)
      \<and> 2 * length stocks * nat \<lfloor>durationInMonths\<rfloor> \<le> nonZeroDraws tape"
    then obtain r0 trs' where
      "simulateTrace initialInvestment monthlyDeposit stocks bankAccount target durationInMonths
         scenario correlation tape = Some (Inr (r0, trs'))"
      "length trs' = nat \<lfloor>durationInMonths\<rfloor>"
      using simulateTrace_returns[of initialInvestment monthlyDeposit durationInMonths stocks
          target tape bankAccount scenario correlation]
      by blast
    then have "simulateInvestmentStrategy initialInvestment monthlyDeposit stocks
                      bankAccount target durationInMonths scenario correlation tape
                    = Some (Inr (r0 # map tr_recorded trs'))
             \<and> length (r0 # map tr_recorded trs') = nat \<lfloor>durationInMonths\<rfloor> + 1"
      by (simp add: simulateInvestmentStrategy_Inr)
    then show "\<exists>history. simulateInvestmentStrategy initialInvestment monthlyDeposit stocks
                      bankAccount target durationInMonths scenario correlation tape
                    = Some (Inr history)
                  \<and> length history = nat \<lfloor>durationInMonths\<rfloor> + 1"
      by blast
  qed
next
  show "simulateTrace initialInvestment monthlyDeposit stocks bankAccount target durationInMonths
         scenario correlation tape = Some (Inr (state0, trs))
    \<longrightarrow> simulateInvestmentStrategy initialInvestment monthlyDeposit stocks bankAccount target
          durationInMonths scenario correlation tape
        = Some (Inr (state0 # map tr_recorded trs))
      \<and> length trs = nat \<lfloor>durationInMonths\<rfloor>
      \<and> (\<forall>tr\<in>set trs. \<exists>s1 m1 tapeA tapeB.
            simulateMonth monthlyDeposit stocks bankAccount target scenario correlation
              m1 s1 tapeA = Some (tr, tapeB)
            \<and> (\<forall>p\<in>set (currentStockHoldings s1). snd p = NaN \<or> nonNegative (snd p)))
      \<and> (\<forall>tr\<in>set trs. \<forall>t e.
            tr_totalCapitalForReallocation tr = Num t \<and> 0 < t
            \<and> calculateAllocation t stocks bankAccount target correlation = Inl e
          \<longrightarrow> currentStockHoldings (tr_state tr) = tr_grownStockHoldings tr
            \<and> stockValues (tr_recorded tr) = tr_grownStockHoldings tr
            \<and> currentBankHolding (tr_state tr)
                = nminus (Num t) (sumValues (tr_grownStockHoldings tr))
            \<and> nplus (sumValues (currentStockHoldings (tr_state tr)))
                  (currentBankHolding (tr_state tr)) = Num t)"
  proof (intro impI conjI)
    assume trace: "simulateTrace initialInvestment monthlyDeposit stocks bankAccount target
         durationInMonths scenario correlation tape = Some (Inr (state0, trs))"
    note inv = simulateTrace_Inr[OF trace]
    let ?s0 = "initialState initialInvestment stocks bankAccount target correlation"
    from inv have months: "simulateMonths monthlyDeposit stocks bankAccount target scenario
         correlation (nat \<lfloor>durationInMonths\<rfloor>) 1 ?s0 tape = Some trs" by simp
    show "simulateInvestmentStrategy initialInvestment monthlyDeposit stocks bankAccount target
          durationInMonths scenario correlation tape
        = Some (Inr (state0 # map tr_recorded trs))"
      using trace by (simp add: simulateInvestmentStrategy_Inr)
    show "length trs = nat \<lfloor>durationInMonths\<rfloor>"
      by (rule simulateMonths_length[OF months])
    show steps: "\<forall>tr\<in>set trs. \<exists>s1 m1 tapeA tapeB.
            simulateMonth monthlyDeposit stocks bankAccount target scenario correlation
              m1 s1 tapeA = Some (tr, tapeB)
            \<and> (\<forall>p\<in>set (currentStockHoldings s1). snd p = NaN \<or> nonNegative (snd p))"
      by (rule simulateMonths_steps[OF months initialState_holdings])
    show "\<forall>tr\<in>set trs. \<forall>t e.
            tr_totalCapitalForReallocation tr = Num t \<and> 0 < t
            \<and> calculateAllocation t stocks bankAccount target correlation = Inl e
          \<longrightarrow> currentStockHoldings (tr_state tr) = tr_grownStockHoldings tr
            \<and> stockValues (tr_recorded tr) = tr_grownStockHoldings tr
            \<and> currentBankHolding (tr_state tr)
                = nminus (Num t) (sumValues (tr_grownStockHoldings tr))
            \<and> nplus (sumValues (currentStockHoldings (tr_state tr)))
                  (currentBankHolding (tr_state tr)) = Num t"
    proof (intro ballI allI impI)
      fix tr t e
      assume mem: "tr \<in> set trs"
        and h: "tr_totalCapitalForReallocation tr = Num t \<and> 0 < t
            \<and> calculateAllocation t stocks bankAccount target correlation = Inl e"
      from steps mem obtain s1 m1 tapeA tapeB where
        step: "simulateMonth monthlyDeposit stocks bankAccount target scenario correlation
              m1 s1 tapeA = Some (tr, tapeB)"
        and W: "\<forall>p\<in>set (currentStockHoldings s1). snd p = NaN \<or> nonNegative (snd p)"
        by blast
      from h have t: "tr_totalCapitalForReallocation tr = Num t" "0 < t"
        and fails: "calculateAllocation t stocks bankAccount target correlation = Inl e"
        by simp_all
      from step_fallback[OF step W t fails]
      show "currentStockHoldings (tr_state tr) = tr_grownStockHoldings tr
            \<and> stockValues (tr_recorded tr) = tr_grownStockHoldings tr
            \<and> currentBankHolding (tr_state tr)
                = nminus (Num t) (sumValues (tr_grownStockHoldings tr))
            \<and> nplus (sumValues (currentStockHoldings (tr_state tr)))
                  (currentBankHolding (tr_state tr)) = Num t"
        by blast
    qed
  qed
qed

theorem allocation_failure_fallback_witness:
  "simulateMonth 100 [stockA] bankZero (1/10) AVERAGE (1/2) 1
     \<lparr> currentStockHoldings = [(''A'', Num 500)], currentBankHolding = Num 500,
       cumulativeCapitalInvested = 1000 \<rparr> [0, 1/2, 1/4]
   = Some (\<lparr> tr_grownStockHoldings = [(''A'', Num (3025/6))],
              tr_totalCapitalForReallocation = Num (6625/6),
              tr_state = \<lparr> currentStockHoldings = [(''A'', Num (3025/6))],
                           currentBankHolding = Num 600,
                           cumulativeCapitalInvested = 1100 \<rparr>,
              tr_recorded = \<lparr> month = 1, stockValues = [(''A'', Num (3025/6))],
                              bankValue = Num 600, totalPortfolioValue = Num (110417/100),
                              totalCapitalInvested = 1100 \<rparr> \<rparr>, [])
   \<and> nonNegative (Num 500)
   \<and> (0::real) < 6625/6
   \<and> calculateAllocation (6625/6) [stockA] bankZero (1/10) (1/2)
       = Inl (InterestRateOutOfRange 0)
   \<and> growStocks AVERAGE [stockA] [(''A'', Num 500)] [] [0, 1/2, 1/4]
       = Some ([(''A'', Num (3025/6))], [])
   \<and> Num 600 = nminus (Num (6625/6)) (sumValues [(''A'', Num (3025/6))])
   \<and> nplus (sumValues [(''A'', Num (3025/6))]) (Num 600) = Num (6625/6)
   \<and> 2 * length [stockA] * nat \<lfloor>1::real\<rfloor> \<le> nonZeroDraws [0, 1/2, 1/4]
   \<and> simulateTrace 1000 100 [stockA] bankZero (1/10) 1 AVERAGE (1/2) [0, 1/2, 1/4] =
     Some (Inr (\<lparr> month = 0, stockValues = [(''A'', Num 0)], bankValue = Num 1000,
                  totalPortfolioValue = Num 1000, totalCapitalInvested = 1000 \<rparr>,
                [\<lparr> tr_grownStockHoldings = [(''A'', Num 0)],
                   tr_totalCapitalForReallocation = Num 1100,
                   tr_state = \<lparr> currentStockHoldings = [(''A'', Num 0)],
                                currentBankHolding = Num 1100,
                                cumulativeCapitalInvested = 1100 \<rparr>,
                   tr_recorded = \<lparr> month = 1, stockValues = [(''A'', Num 0)],
                                   bankValue = Num 1100, totalPortfolioValue = Num 1100,
                                   totalCapitalInvested = 1100 \<rparr> \<rparr>]))
   \<and> simulateInvestmentStrategy 1000 100 [stockA] bankZero (1/10) 1 AVERAGE (1/2) [0, 1/2, 1/4]
       = Some (Inr [\<lparr> month = 0, stockValues = [(''A'', Num 0)], bankValue = Num 1000,
                      totalPortfolioValue = Num 1000, totalCapitalInvested = 1000 \<rparr>,
                    \<lparr> month = 1, stockValues = [(''A'', Num 0)],
                      bankValue = Num 1100, totalPortfolioValue = Num 1100,
                      totalCapitalInvested = 1100 \<rparr>])"
proof -
  let ?s = "\<lparr> currentStockHoldings = [(''A'', Num 500)], currentBankHolding = Num 500,
              cumulativeCapitalInvested = 1000 \<rparr>"
  let ?tr = "\<lparr> tr_grownStockHoldings = [(''A'', Num (3025/6))],
              tr_totalCapitalForReallocation = Num (6625/6),
              tr_state = \<lparr> currentStockHoldings = [(''A'', Num (3025/6))],
                           currentBankHolding = Num 600,
                           cumulativeCapitalInvested = 1100 \<rparr>,
              tr_recorded = \<lparr> month = 1, stockValues = [(''A'', Num (3025/6))],
                              bankValue = Num 600, totalPortfolioValue = Num (110417/100),
                              totalCapitalInvested = 1100 \<rparr> \<rparr>"
  note step = month_fallback_holding[of 1]
  have nn: "nonNegative (Num 500)" by (simp add: nonNegative_def)
  have pos: "(0::real) < 6625/6" by simp
  have a: "calculateAllocation (6625/6) [stockA] bankZero (1/10) (1/2)
             = Inl (InterestRateOutOfRange 0)"
    by (simp add: alloc_bankZero)
  have d: "2 * length [stockA] * nat \<lfloor>1::real\<rfloor> \<le> nonZeroDraws [0, 1/2, 1/4]"
    by (simp add: nonZeroDraws_def)
  note inst = allocation_failure_fallback[where monthlyDeposit = 100
      and stocks = "[stockA]" and bankAccount = bankZero and target = "1/10"
      and scenario = AVERAGE and correlation = "1/2" and m = 1 and s = ?s
      and ?tape1.0 = "[0, 1/2, 1/4]" and tr = ?tr and ?tape2.0 = "[]" and t = "6625/6"
      and e = "InterestRateOutOfRange 0" and initialInvestment = 1000
      and durationInMonths = 1 and tape = "[0, 1/2, 1/4]"]
  have hyp: "simulateMonth 100 [stockA] bankZero (1/10) AVERAGE (1/2) 1 ?s [0, 1/2, 1/4]
      = Some (?tr, [])
    \<and> (\<forall>p\<in>set (currentStockHoldings ?s). snd p = NaN \<or> nonNegative (snd p))
    \<and> tr_totalCapitalForReallocation ?tr = Num (6625/6) \<and> 0 < (6625/6 :: real)
    \<and> calculateAllocation (6625/6) [stockA] bankZero (1/10) (1/2)
        = Inl (InterestRateOutOfRange 0)"
    using step nn a by simp
  note concl = inst[THEN conjunct1, THEN mp, OF hyp,
      unfolded MonthTrace.select_convs SimState.select_convs]
  from concl have c:
    "growStocks AVERAGE [stockA] [(''A'', Num 500)] [] [0, 1/2, 1/4]
       = Some ([(''A'', Num (3025/6))], [])
     \<and> Num 600 = nminus (Num (6625/6)) (sumValues [(''A'', Num (3025/6))])
     \<and> nplus (sumValues [(''A'', Num (3025/6))]) (Num 600) = Num (6625/6)"
    by blast
  from inst[THEN conjunct2, THEN conjunct2, rule_format, OF trace_fallback]
  have run: "simulateInvestmentStrategy 1000 100 [stockA] bankZero (1/10) 1 AVERAGE (1/2)
       [0, 1/2, 1/4]
       = Some (Inr [\<lparr> month = 0, stockValues = [(''A'', Num 0)], bankValue = Num 1000,
                      totalPortfolioValue = Num 1000, totalCapitalInvested = 1000 \<rparr>,
                    \<lparr> month = 1, stockValues = [(''A'', Num 0)],
                      bankValue = Num 1100, totalPortfolioValue = Num 1100,
                      totalCapitalInvested = 1100 \<rparr>])"
    by simp
  note c1 = c[THEN conjunct1]
  note c2 = c[THEN conjunct2, THEN conjunct1]
  note c3 = c[THEN conjunct2, THEN conjunct2]
  show ?thesis
    by (intro conjI step nn pos a c1 c2 c3 d trace_fallback run)
qed


lemma month_leveraged:
  "simulateMonth 0 [stockA] bank3 (2/5) AVERAGE (1/2) m
     \<lparr> currentStockHoldings = [(''A'', Num 2000)], currentBankHolding = Num (- 1000),
       cumulativeCapitalInvested = 1000 \<rparr> [0, 1/2, 1/4]
   = Some (\<lparr> tr_grownStockHoldings = [(''A'', Num (6050/3))],
              tr_totalCapitalForReallocation = Num (6085/6),
              tr_state = \<lparr> currentStockHoldings = [(''A'', Num (6085/3))],
                           currentBankHolding = Num (- (6085/6)),
                           cumulativeCapitalInvested = 1000 \<rparr>,
              tr_recorded = \<lparr> month = m, stockValues = [(''A'', Num (6085/3))],
                              bankValue = Num (- (101417/100)),
                              totalPortfolioValue = Num (101417/100),
                              totalCapitalInvested = 1000 \<rparr> \<rparr>, [])"
proof -
  have g: "growStocks AVERAGE [stockA] [(''A'', Num 2000)] [] [0, 1/2, 1/4]
             = Some ([(''A'', Num (6050/3))], [])"
    by (simp add: normal_example return_example ntimes_def) (simp add: stockA_def)
  have r: "interestRate bank3 / 12 = 1/400" by (simp add: bank3_def)
  have t: "(0::real) \<le> 6085/6" "(0::real) \<le> 2/5" by simp_all
  from alloc_stockA[OF t] obtain res where
    res: "calculateAllocation (6085/6) [stockA] bank3 (2/5) (1/2) = Inr res"
    "res_stocks res = [\<lparr> sa_name = ''A'', sa_amount = Num (6085/6 * (2/5 * 5)),
                            sa_weightInBasket = 100,
                            sa_weightInTotal = Num (2/5 * 5 * 100) \<rparr>]"
    "ba_amount (res_bankAllocation res) = Num (6085/6 * (1 - 2/5 * 5))"
    by blast
  show ?thesis
    using res
    apply (simp only: simulateMonth_def SimState.select_convs g option.case prod.case)
    apply (simp add: Let_def r sumValues_def nplus_def ntimes_def rebalance_def
        applyAllocation_def clampHoldings_def toFixed2_def)
    done
qed

lemma trace_leveraged_month:
  "simulateTrace 1000 0 [stockA] bank3 (2/5) 1 AVERAGE (1/2) [0, 1/2, 1/4] =
     Some (Inr (\<lparr> month = 0, stockValues = [(''A'', Num 2000)], bankValue = Num (- 1000),
                  totalPortfolioValue = Num 1000, totalCapitalInvested = 1000 \<rparr>,
                [\<lparr> tr_grownStockHoldings = [(''A'', Num (6050/3))],
                   tr_totalCapitalForReallocation = Num (6085/6),
                   tr_state = \<lparr> currentStockHoldings = [(''A'', Num (6085/3))],
                                currentBankHolding = Num (- (6085/6)),
                                cumulativeCapitalInvested = 1000 \<rparr>,
                   tr_recorded = \<lparr> month = 1, stockValues = [(''A'', Num (6085/3))],
                                   bankValue = Num (- (101417/100)),
                                   totalPortfolioValue = Num (101417/100),
                                   totalCapitalInvested = 1000 \<rparr> \<rparr>]))"
  by (simp add: simulateTrace_def Let_def init_stockA recordMonth0_def sumValues_def nplus_def
      month_leveraged)

lemma volatility_stockA:
  "bm_volatility (basketMetricsOf [stockA] (interestRate bank3) (1/2)) = Num (1/5)"
  by (simp add: metrics1)

text \<open>
  C3, as amended. When the basket volatility computed for the inputs is not \<open>NaN\<close>, every
  per-asset holding of every recorded state is at least zero. The bank holding of month 0 is
  negative only when the allocation is leveraged, that is when the target volatility is
  above the basket volatility; the bank holding recorded for a later month is negative only
  when the allocation is leveraged or the capital for reallocation of that month is negative.
\<close>

theorem holdings_signs:
  assumes tr: "simulateTrace initialInvestment monthlyDeposit stocks bankAccount target
         durationInMonths scenario correlation tape = Some (Inr (state0, trs))"
  shows "simulateInvestmentStrategy initialInvestment monthlyDeposit stocks bankAccount target
          durationInMonths scenario correlation tape
        = Some (Inr (state0 # map tr_recorded trs))
     \<and> (bm_volatility (basketMetricsOf stocks (interestRate bankAccount) correlation) \<noteq> NaN
          \<longrightarrow> (\<forall>r\<in>set (state0 # map tr_recorded trs).
                 \<forall>p\<in>set (stockValues r). nonNegative (snd p)))
     \<and> (isNegative (bankValue state0) \<longrightarrow> leveraged stocks bankAccount target correlation)
     \<and> (\<forall>tr\<in>set trs. isNegative (bankValue (tr_recorded tr)) \<longrightarrow>
           leveraged stocks bankAccount target correlation
           \<or> isNegative (tr_totalCapitalForReallocation tr))"
proof (intro conjI impI)
  note inv = simulateTrace_Inr[OF tr]
  let ?s0 = "initialState initialInvestment stocks bankAccount target correlation"
  from inv have months: "simulateMonths monthlyDeposit stocks bankAccount target scenario
       correlation (nat \<lfloor>durationInMonths\<rfloor>) 1 ?s0 tape = Some trs" by simp
  from inv have s0: "state0 = recordMonth0 ?s0" by simp
  show "simulateInvestmentStrategy initialInvestment monthlyDeposit stocks bankAccount target
          durationInMonths scenario correlation tape
        = Some (Inr (state0 # map tr_recorded trs))"
    using tr by (simp add: simulateInvestmentStrategy_Inr)
  show "leveraged stocks bankAccount target correlation" if "isNegative (bankValue state0)"
    using that s0 initialState_bank_negative[of initialInvestment stocks bankAccount target
        correlation]
    by (simp add: recordMonth0_def)
  show "\<forall>r\<in>set (state0 # map tr_recorded trs). \<forall>p\<in>set (stockValues r). nonNegative (snd p)"
    if noNaN: "bm_volatility (basketMetricsOf stocks (interestRate bankAccount) correlation) \<noteq> NaN"
  proof -
    note i0 = initialState_finite[OF noNaN, of initialInvestment target]
    have "\<forall>tr\<in>set trs. \<forall>p\<in>set (stockValues (tr_recorded tr)). nonNegative (snd p)"
    proof (rule simulateMonths_invariant[OF months,
          where Inv = "\<lambda>s. (\<forall>p\<in>set (currentStockHoldings s). nonNegative (snd p))
                            \<and> currentBankHolding s \<noteq> NaN"])
      show "(\<forall>p\<in>set (currentStockHoldings ?s0). nonNegative (snd p))
              \<and> currentBankHolding ?s0 \<noteq> NaN"
        by (rule i0)
    next
      fix s m tape1 tr tape2
      assume "(\<forall>p\<in>set (currentStockHoldings s). nonNegative (snd p))
                \<and> currentBankHolding s \<noteq> NaN"
        and "simulateMonth monthlyDeposit stocks bankAccount target scenario correlation
               m s tape1 = Some (tr, tape2)"
      then show "((\<forall>p\<in>set (currentStockHoldings (tr_state tr)). nonNegative (snd p))
                   \<and> currentBankHolding (tr_state tr) \<noteq> NaN)
               \<and> (\<forall>p\<in>set (stockValues (tr_recorded tr)). nonNegative (snd p))"
        by (rule step_finite[OF noNaN])
    qed
    with i0 s0 show ?thesis by (simp add: recordMonth0_def)
  qed
  let ?Q = "\<lambda>tr. isNegative (bankValue (tr_recorded tr)) \<longrightarrow>
           leveraged stocks bankAccount target correlation
           \<or> isNegative (tr_totalCapitalForReallocation tr)"
  have recorded: "isNegative (currentBankHolding (tr_state tr))"
    if "simulateMonth monthlyDeposit stocks bankAccount target scenario correlation
               m s tape1 = Some (tr, tape2)" "isNegative (bankValue (tr_recorded tr))"
    for m s tape1 tr tape2
  proof -
    from simulateMonth_Some[OF that(1)] have
      "bankValue (tr_recorded tr) = parseFloat_toFixed2 (currentBankHolding (tr_state tr))"
      by auto
    with that(2) show ?thesis by (simp add: parseFloat_toFixed2_negative)
  qed
  show "\<forall>tr\<in>set trs. ?Q tr"
  proof (cases "allocationFails stocks bankAccount target correlation")
    case True
    show ?thesis
    proof (rule simulateMonths_invariant[OF months,
          where Inv = "\<lambda>s. \<forall>p\<in>set (currentStockHoldings s). snd p = Num 0"])
      show "\<forall>p\<in>set (currentStockHoldings ?s0). snd p = Num 0"
        by (rule initialState_failing[OF True])
    next
      fix s m tape1 tr tape2
      assume Z: "\<forall>p\<in>set (currentStockHoldings s). snd p = Num 0"
        and step: "simulateMonth monthlyDeposit stocks bankAccount target scenario correlation
                     m s tape1 = Some (tr, tape2)"
      from step_failing[OF True Z step] recorded[OF step]
      show "(\<forall>p\<in>set (currentStockHoldings (tr_state tr)). snd p = Num 0) \<and> ?Q tr"
        by blast
    qed
  next
    case False
    show ?thesis
    proof (rule simulateMonths_invariant[OF months, where Inv = "\<lambda>s. True"])
      show True ..
    next
      fix s m tape1 tr tape2
      assume step: "simulateMonth monthlyDeposit stocks bankAccount target scenario correlation
                     m s tape1 = Some (tr, tape2)"
      from step_succeeding[OF False step] recorded[OF step]
      show "True \<and> ?Q tr" by blast
    qed
  qed
qed


theorem holdings_signs_witness:
  "simulateTrace 1000 0 [stockA] bank3 (2/5) 1 AVERAGE (1/2) [0, 1/2, 1/4] =
     Some (Inr (\<lparr> month = 0, stockValues = [(''A'', Num 2000)], bankValue = Num (- 1000),
                  totalPortfolioValue = Num 1000, totalCapitalInvested = 1000 \<rparr>,
                [\<lparr> tr_grownStockHoldings = [(''A'', Num (6050/3))],
                   tr_totalCapitalForReallocation = Num (6085/6),
                   tr_state = \<lparr> currentStockHoldings = [(''A'', Num (6085/3))],
                                currentBankHolding = Num (- (6085/6)),
                                cumulativeCapitalInvested = 1000 \<rparr>,
                   tr_recorded = \<lparr> month = 1, stockValues = [(''A'', Num (6085/3))],
                                   bankValue = Num (- (101417/100)),
                                   totalPortfolioValue = Num (101417/100),
                                   totalCapitalInvested = 1000 \<rparr> \<rparr>]))
   \<and> bm_volatility (basketMetricsOf [stockA] (interestRate bank3) (1/2)) \<noteq> NaN
   \<and> nonNegative (Num 2000) \<and> nonNegative (Num (6085/3))
   \<and> isNegative (Num (- 1000)) \<and> isNegative (Num (- (101417/100)))
   \<and> \<not> isNegative (Num (6085/6))
   \<and> leveraged [stockA] bank3 (2/5) (1/2)"
proof -
  note inst = holdings_signs[OF trace_leveraged_month]
  have v: "bm_volatility (basketMetricsOf [stockA] (interestRate bank3) (1/2)) \<noteq> NaN"
    by (simp add: volatility_stockA)
  from inst v have nn: "nonNegative (Num 2000) \<and> nonNegative (Num (6085/3))"
    by simp
  from inst have lev: "leveraged [stockA] bank3 (2/5) (1/2)"
    by simp
  show ?thesis
    using nn lev v by (simp add: trace_leveraged_month)
qed

theorem bank_negative_counterexample:
  "simulateInvestmentStrategy 1000 0 [stockA] bank3 (2/5) 0 AVERAGE (1/2) [] =
     Some (Inr [\<lparr> month = 0, stockValues = [(''A'', Num 2000)], bankValue = Num (- 1000),
                  totalPortfolioValue = Num 1000, totalCapitalInvested = 1000 \<rparr>])
   \<and> isNegative (bankValue \<lparr> month = 0, stockValues = [(''A'', Num 2000)],
                              bankValue = Num (- 1000), totalPortfolioValue = Num 1000,
                              totalCapitalInvested = 1000 \<rparr>)"
  using run_leveraged by simp

lemma toFixed2_rounded: "isHundredths (toFixed2 x) \<or> \<bar>toFixed2 x\<bar> \<ge> 10 ^ 21"
proof (cases "\<bar>x\<bar> \<ge> 10 ^ 21")
  case True
  then show ?thesis by (simp add: toFixed2_def)
next
  case False
  obtain j :: int where j: "sgn x = real_of_int j"
    by (cases "x < 0"; cases "x = 0") (auto simp: sgn_if intro: that[of 0] that[of 1] that[of "-1"])
  from False have "toFixed2 x = real_of_int (j * \<lfloor>\<bar>x\<bar> * 100 + 1 / 2\<rfloor>) / 100"
    by (simp add: toFixed2_def j)
  then have "isHundredths (toFixed2 x)"
    by (simp add: isHundredths_def)
  then show ?thesis ..
qed

text \<open>
  C9, as amended. In the state recorded for a month \<open>N \<ge> 1\<close> the bank holding, the total
  portfolio value and the cumulative capital are the values of the simulation state rounded by
  \<open>parseFloat(x.toFixed(2))\<close>: a number of whole hundredths (or a number from \<open>10^21\<close> on,
  which \<open>toFixed\<close> prints as it is). The per-asset holdings of every recorded state and all
  fields of the state recorded for month 0 are the values of the simulation state, unrounded.
\<close>

theorem recorded_fields_rounding:
  assumes tr: "simulateTrace initialInvestment monthlyDeposit stocks bankAccount target
         durationInMonths scenario correlation tape = Some (Inr (state0, trs))"
  shows "simulateInvestmentStrategy initialInvestment monthlyDeposit stocks bankAccount target
          durationInMonths scenario correlation tape
        = Some (Inr (state0 # map tr_recorded trs))
     \<and> state0 = recordMonth0 (initialState initialInvestment stocks bankAccount target
                                correlation)
     \<and> (\<forall>tr\<in>set trs.
           stockValues (tr_recorded tr) = currentStockHoldings (tr_state tr)
         \<and> bankValue (tr_recorded tr) = parseFloat_toFixed2 (currentBankHolding (tr_state tr))
         \<and> totalPortfolioValue (tr_recorded tr)
             = parseFloat_toFixed2 (nplus (sumValues (currentStockHoldings (tr_state tr)))
                                      (currentBankHolding (tr_state tr)))
         \<and> totalCapitalInvested (tr_recorded tr)
             = toFixed2 (cumulativeCapitalInvested (tr_state tr))
         \<and> (\<forall>x. bankValue (tr_recorded tr) = Num x \<longrightarrow> isHundredths x \<or> \<bar>x\<bar> \<ge> 10 ^ 21)
         \<and> (\<forall>x. totalPortfolioValue (tr_recorded tr) = Num x
                 \<longrightarrow> isHundredths x \<or> \<bar>x\<bar> \<ge> 10 ^ 21)
         \<and> (isHundredths (totalCapitalInvested (tr_recorded tr))
              \<or> \<bar>totalCapitalInvested (tr_recorded tr)\<bar> \<ge> 10 ^ 21))"
proof (intro conjI)
  note inv = simulateTrace_Inr[OF tr]
  let ?s0 = "initialState initialInvestment stocks bankAccount target correlation"
  from inv have months: "simulateMonths monthlyDeposit stocks bankAccount target scenario
       correlation (nat \<lfloor>durationInMonths\<rfloor>) 1 ?s0 tape = Some trs" by simp
  show "simulateInvestmentStrategy initialInvestment monthlyDeposit stocks bankAccount target
          durationInMonths scenario correlation tape
        = Some (Inr (state0 # map tr_recorded trs))"
    using tr by (simp add: simulateInvestmentStrategy_Inr)
  show "state0 = recordMonth0 ?s0" using inv by simp
  let ?Q = "\<lambda>tr. stockValues (tr_recorded tr) = currentStockHoldings (tr_state tr)
         \<and> bankValue (tr_recorded tr) = parseFloat_toFixed2 (currentBankHolding (tr_state tr))
         \<and> totalPortfolioValue (tr_recorded tr)
             = parseFloat_toFixed2 (nplus (sumValues (currentStockHoldings (tr_state tr)))
                                      (currentBankHolding (tr_state tr)))
         \<and> totalCapitalInvested (tr_recorded tr)
             = toFixed2 (cumulativeCapitalInvested (tr_state tr))
         \<and> (\<forall>x. bankValue (tr_recorded tr) = Num x \<longrightarrow> isHundredths x \<or> \<bar>x\<bar> \<ge> 10 ^ 21)
         \<and> (\<forall>x. totalPortfolioValue (tr_recorded tr) = Num x
                 \<longrightarrow> isHundredths x \<or> \<bar>x\<bar> \<ge> 10 ^ 21)
         \<and> (isHundredths (totalCapitalInvested (tr_recorded tr))
              \<or> \<bar>totalCapitalInvested (tr_recorded tr)\<bar> \<ge> 10 ^ 21)"
  have pf: "isHundredths x \<or> \<bar>x\<bar> \<ge> 10 ^ 21" if "parseFloat_toFixed2 v = Num x" for v x
    using that toFixed2_rounded by (cases v) auto
  show "\<forall>tr\<in>set trs. ?Q tr"
  proof (rule simulateMonths_invariant[OF months, where Inv = "\<lambda>s. True"])
    show True ..
  next
    fix s m tape1 tr tape2
    assume step: "simulateMonth monthlyDeposit stocks bankAccount target scenario correlation
                     m s tape1 = Some (tr, tape2)"
    from simulateMonth_Some[OF step] simulateMonth_cumulative[OF step]
    have a: "stockValues (tr_recorded tr) = currentStockHoldings (tr_state tr)"
      and b: "bankValue (tr_recorded tr) = parseFloat_toFixed2 (currentBankHolding (tr_state tr))"
      and c: "totalPortfolioValue (tr_recorded tr)
             = parseFloat_toFixed2 (nplus (sumValues (currentStockHoldings (tr_state tr)))
                                      (currentBankHolding (tr_state tr)))"
      and d: "totalCapitalInvested (tr_recorded tr)
             = toFixed2 (cumulativeCapitalInvested (tr_state tr))"
      by auto
    from b c d pf toFixed2_rounded have
      "(\<forall>x. bankValue (tr_recorded tr) = Num x \<longrightarrow> isHundredths x \<or> \<bar>x\<bar> \<ge> 10 ^ 21)"
      "(\<forall>x. totalPortfolioValue (tr_recorded tr) = Num x
                 \<longrightarrow> isHundredths x \<or> \<bar>x\<bar> \<ge> 10 ^ 21)"
      "(isHundredths (totalCapitalInvested (tr_recorded tr))
              \<or> \<bar>totalCapitalInvested (tr_recorded tr)\<bar> \<ge> 10 ^ 21)"
      by metis+
    with a b c d show "True \<and> ?Q tr" by blast
  qed
qed

lemma run_month0_unrounded:
  "simulateInvestmentStrategy (1/1000) 0 [] bank3 0 0 AVERAGE (1/2) [] =
     Some (Inr [\<lparr> month = 0, stockValues = [], bankValue = Num (1/1000),
                  totalPortfolioValue = Num (1/1000), totalCapitalInvested = 1/1000 \<rparr>])"
  by (simp add: simulateInvestmentStrategy_def simulateTrace_def Let_def init_no_stocks
      recordMonth0_def sumValues_def nplus_def)

theorem recorded_fields_counterexample:
  "simulateInvestmentStrategy 1000 0 [stockA] bank3 (1/10) 1 AVERAGE (1/2) [0, 1/2, 1/4] =
     Some (Inr [\<lparr> month = 0, stockValues = [(''A'', Num 500)], bankValue = Num 500,
                  totalPortfolioValue = Num 1000, totalCapitalInvested = 1000 \<rparr>,
                \<lparr> month = 1, stockValues = [(''A'', Num (12065/24))],
                  bankValue = Num (50271/100), totalPortfolioValue = Num (50271/50),
                  totalCapitalInvested = 1000 \<rparr>])
   \<and> \<not> isHundredths (12065/24) \<and> \<not> \<bar>12065/24 :: real\<bar> \<ge> 10 ^ 21
   \<and> toFixed2 (12065/24) \<noteq> 12065/24
   \<and> simulateInvestmentStrategy (1/1000) 0 [] bank3 0 0 AVERAGE (1/2) [] =
     Some (Inr [\<lparr> month = 0, stockValues = [], bankValue = Num (1/1000),
                  totalPortfolioValue = Num (1/1000), totalCapitalInvested = 1/1000 \<rparr>])
   \<and> \<not> isHundredths (1/1000) \<and> \<not> \<bar>1/1000 :: real\<bar> \<ge> 10 ^ 21
   \<and> toFixed2 (1/1000) \<noteq> 1/1000"
  using run_stockA run_month0_unrounded
  by (simp add: isHundredths_def toFixed2_def)

theorem recorded_fields_rounding_witness:
  "simulateTrace 1000 0 [stockA] bank3 (1/10) 1 AVERAGE (1/2) [0, 1/2, 1/4] =
     Some (Inr (\<lparr> month = 0, stockValues = [(''A'', Num 500)], bankValue = Num 500,
                  totalPortfolioValue = Num 1000, totalCapitalInvested = 1000 \<rparr>,
                [\<lparr> tr_grownStockHoldings = [(''A'', Num (3025/6))],
                   tr_totalCapitalForReallocation = Num (12065/12),
                   tr_state = \<lparr> currentStockHoldings = [(''A'', Num (12065/24))],
                                currentBankHolding = Num (12065/24),
                                cumulativeCapitalInvested = 1000 \<rparr>,
                   tr_recorded = \<lparr> month = 1, stockValues = [(''A'', Num (12065/24))],
                                   bankValue = Num (50271/100),
                                   totalPortfolioValue = Num (50271/50),
                                   totalCapitalInvested = 1000 \<rparr> \<rparr>]))
   \<and> (isHundredths (50271/100) \<or> \<bar>50271/100 :: real\<bar> \<ge> 10 ^ 21)
   \<and> (isHundredths (50271/50) \<or> \<bar>50271/50 :: real\<bar> \<ge> 10 ^ 21)
   \<and> (isHundredths 1000 \<or> \<bar>1000 :: real\<bar> \<ge> 10 ^ 21)
   \<and> Num (50271/100) = parseFloat_toFixed2 (Num (12065/24))"
proof -
  note inst = recorded_fields_rounding[OF trace_stockA]
  from inst have "(isHundredths (50271/100) \<or> \<bar>50271/100 :: real\<bar> \<ge> 10 ^ 21)
   \<and> (isHundredths (50271/50) \<or> \<bar>50271/50 :: real\<bar> \<ge> 10 ^ 21)
   \<and> (isHundredths 1000 \<or> \<bar>1000 :: real\<bar> \<ge> 10 ^ 21)
   \<and> Num (50271/100) = parseFloat_toFixed2 (Num (12065/24))"
    by simp
  with trace_stockA show ?thesis by simp
qed

end
